theory Spec2Isabelle
  imports Complex_Main
begin

section \<open>Python strings\<close>

text \<open>
  The flight board is read by two scripts, \<^verbatim>\<open>19_05_flight.py\<close> and
  \<^verbatim>\<open>katowise_v3.py\<close>. A Python \<^verbatim>\<open>str\<close> is modelled as a \<^typ>\<open>string\<close> whose
  characters are the code points U+0000 to U+00FF; the character classes below are
  those of Python on that range.
\<close>

definition code_point :: "char \<Rightarrow> nat" where
  "code_point c = of_char c"

text \<open>\<^verbatim>\<open>str.isspace\<close> on one character; also the class \<^verbatim>\<open>\s\<close> of \<^verbatim>\<open>re\<close>.\<close>

definition is_space :: "char \<Rightarrow> bool" where
  "is_space c =
     (let n = code_point c
      in (9 \<le> n \<and> n \<le> 13) \<or> (28 \<le> n \<and> n \<le> 32) \<or> n = 133 \<or> n = 160)"

text \<open>A decimal digit: the class \<^verbatim>\<open>\d\<close> of \<^verbatim>\<open>re\<close>, and the digits \<^verbatim>\<open>int\<close> reads.\<close>

definition is_decimal :: "char \<Rightarrow> bool" where
  "is_decimal c = (let n = code_point c in 48 \<le> n \<and> n \<le> 57)"

text \<open>\<^verbatim>\<open>str.isalpha\<close> on one character.\<close>

definition is_alpha :: "char \<Rightarrow> bool" where
  "is_alpha c =
     (let n = code_point c
      in (65 \<le> n \<and> n \<le> 90) \<or> (97 \<le> n \<and> n \<le> 122) \<or> n = 170 \<or> n = 181 \<or> n = 186
         \<or> (192 \<le> n \<and> n \<le> 214) \<or> (216 \<le> n \<and> n \<le> 246) \<or> (248 \<le> n \<and> n \<le> 255))"

definition lower_char :: "char \<Rightarrow> char" where
  "lower_char c =
     (let n = code_point c
      in if (65 \<le> n \<and> n \<le> 90) \<or> (192 \<le> n \<and> n \<le> 214) \<or> (216 \<le> n \<and> n \<le> 222)
         then char_of (n + 32) else c)"

definition str_lower :: "string \<Rightarrow> string" where
  "str_lower s = map lower_char s"

text \<open>
  \<^verbatim>\<open>str.upper\<close>: the sharp s (U+00DF) becomes \<^verbatim>\<open>SS\<close>. The upper-case forms of U+00B5
  and U+00FF lie beyond U+00FF; those two characters are left as they are here.
\<close>

definition upper_char :: "char \<Rightarrow> string" where
  "upper_char c =
     (let n = code_point c
      in if n = 223 then ''SS''
         else if (97 \<le> n \<and> n \<le> 122) \<or> (224 \<le> n \<and> n \<le> 246) \<or> (248 \<le> n \<and> n \<le> 254)
         then [char_of (n - 32)] else [c])"

definition str_upper :: "string \<Rightarrow> string" where
  "str_upper s = concat (map upper_char s)"

text \<open>\<^verbatim>\<open>s.strip()\<close>.\<close>

definition str_strip :: "string \<Rightarrow> string" where
  "str_strip s = rev (dropWhile is_space (rev (dropWhile is_space s)))"

text \<open>\<^verbatim>\<open>s.split()\<close>: the maximal runs of characters that are not white space.\<close>

fun split_ws_from :: "string \<Rightarrow> string \<Rightarrow> string list" where
  "split_ws_from cur [] = (if cur = [] then [] else [rev cur])"
| "split_ws_from cur (c # cs) =
     (if is_space c
      then (if cur = [] then split_ws_from [] cs else rev cur # split_ws_from [] cs)
      else split_ws_from (c # cur) cs)"

definition str_split :: "string \<Rightarrow> string list" where
  "str_split s = split_ws_from [] s"

text \<open>\<^verbatim>\<open>s.split(sep)\<close> for a separator of one character: empty pieces are kept.\<close>

fun str_split_on :: "char \<Rightarrow> string \<Rightarrow> string list" where
  "str_split_on sep [] = [[]]"
| "str_split_on sep (c # cs) =
     (if c = sep then [] # str_split_on sep cs
      else (case str_split_on sep cs of
              [] \<Rightarrow> [[c]]
            | p # ps \<Rightarrow> (c # p) # ps))"

text \<open>\<^verbatim>\<open>s.replace(c, "")\<close> for a single character \<^verbatim>\<open>c\<close>.\<close>

definition str_remove :: "char \<Rightarrow> string \<Rightarrow> string" where
  "str_remove c s = filter (\<lambda>x. x \<noteq> c) s"

text \<open>\<^verbatim>\<open>s.startswith('0')\<close>.\<close>

definition startswith_zero :: "string \<Rightarrow> bool" where
  "startswith_zero s = (case s of [] \<Rightarrow> False | c # _ \<Rightarrow> c = CHR ''0'')"

subsection \<open>Reading an integer\<close>

text \<open>
  \<^verbatim>\<open>int(s)\<close> on a string: white space around the number is dropped (the ASCII white
  space, and U+0085 and U+00A0), one sign is allowed, and the digits may be separated by
  single underscores. Anything else is a \<^verbatim>\<open>ValueError\<close>, here \<open>None\<close>; so is a number of
  more than 4300 digits, the limit the interpreter sets itself since Python 3.11.
\<close>

definition int_space :: "char \<Rightarrow> bool" where
  "int_space c = (let n = code_point c in (9 \<le> n \<and> n \<le> 13) \<or> n = 32 \<or> n = 133 \<or> n = 160)"

fun digits_ok :: "string \<Rightarrow> bool" where
  "digits_ok [] = False"
| "digits_ok [c] = is_decimal c"
| "digits_ok (c # d # cs) =
     (is_decimal c \<and>
      (if d = CHR ''_'' then digits_ok cs else digits_ok (d # cs)))"

definition digit_value :: "char \<Rightarrow> int" where
  "digit_value c = int (code_point c) - 48"

definition digits_value :: "string \<Rightarrow> int" where
  "digits_value s = foldl (\<lambda>acc c. 10 * acc + digit_value c) 0 (filter is_decimal s)"

definition py_int :: "string \<Rightarrow> int option" where
  "py_int s =
     (let t = rev (dropWhile int_space (rev (dropWhile int_space s)));
          neg = (case t of [] \<Rightarrow> False | c # _ \<Rightarrow> c = CHR ''-'');
          body = (case t of [] \<Rightarrow> []
                  | c # cs \<Rightarrow> if c = CHR ''+'' \<or> c = CHR ''-'' then cs else t)
      in if digits_ok body \<and> length (filter is_decimal body) \<le> 4300
         then Some (if neg then - digits_value body else digits_value body)
         else None)"

section \<open>Python values\<close>

text \<open>
  The values a decoded JSON body is made of. A raw flight entry is one of them, a
  \<^verbatim>\<open>dict\<close> when the API behaves; the records the scripts build are \<^verbatim>\<open>dict\<close>s too, kept
  in the order their keys are written.
\<close>

datatype pyval =
    PNone
  | PBool bool
  | PInt int
  | PFloat real
  | PStr string
  | PList "pyval list"
  | PDict "(string \<times> pyval) list"

datatype error = ValueError | TypeError | AttributeError | OverflowError | RequestException

text \<open>The truth value of \<^verbatim>\<open>not x\<close> and \<^verbatim>\<open>if x:\<close>.\<close>

fun truthy :: "pyval \<Rightarrow> bool" where
  "truthy PNone = False"
| "truthy (PBool b) = b"
| "truthy (PInt i) = (i \<noteq> 0)"
| "truthy (PFloat x) = (x \<noteq> 0)"
| "truthy (PStr s) = (s \<noteq> [])"
| "truthy (PList xs) = (xs \<noteq> [])"
| "truthy (PDict kvs) = (kvs \<noteq> [])"

text \<open>\<^verbatim>\<open>d.get(key, default)\<close>.\<close>

definition dict_get :: "(string \<times> pyval) list \<Rightarrow> string \<Rightarrow> pyval \<Rightarrow> pyval" where
  "dict_get d k dflt = (case map_of d k of None \<Rightarrow> dflt | Some v \<Rightarrow> v)"


section \<open>Flight numbers\<close>

text \<open>
  \<^verbatim>\<open>clean_flight_number\<close> of \<^verbatim>\<open>19_05_flight.py\<close>. A value that is true and not a string
  has no \<^verbatim>\<open>strip\<close>: \<^verbatim>\<open>AttributeError\<close>.
\<close>

definition clean_flight_number :: "pyval \<Rightarrow> error + string" where
  "clean_flight_number flight_number_raw =
     (if \<not> truthy flight_number_raw then Inr ''N/A''
      else case flight_number_raw of
        PStr raw \<Rightarrow>
          (let s = str_strip raw
           in if CHR '' '' \<in> set s
              then (let parts = str_split_on (CHR '' '') s;
                        code = hd parts;
                        number = last parts;
                        number' = (if startswith_zero number then drop 1 number else number)
                    in Inr (code @ number'))
              else if startswith_zero (drop 2 s) then Inr (take 2 s @ drop 3 s)
              else Inr s)
      | _ \<Rightarrow> Inl AttributeError)"

text \<open>
  The pattern \<^verbatim>\<open>^([A-Z0-9]{2,3})\s*0*(\d+)$\<close> of \<^verbatim>\<open>format_flight_number\<close>, matched the
  way \<^verbatim>\<open>re.match\<close> does: every repetition is greedy, so its lengths are tried from the
  longest to the shortest, and the first way through the whole pattern is the match.
\<close>

definition is_code_char :: "char \<Rightarrow> bool" where
  "is_code_char c =
     (let n = code_point c in (65 \<le> n \<and> n \<le> 90) \<or> (48 \<le> n \<and> n \<le> 57))"

text \<open>The lengths \<open>hi, hi - 1, \<dots>, lo\<close> a greedy repetition tries, in that order.\<close>

definition greedy :: "nat \<Rightarrow> nat \<Rightarrow> nat list" where
  "greedy lo hi = rev [lo..<Suc hi]"

fun first_match :: "('a \<Rightarrow> 'b option) \<Rightarrow> 'a list \<Rightarrow> 'b option" where
  "first_match f [] = None"
| "first_match f (x # xs) = (case f x of None \<Rightarrow> first_match f xs | Some y \<Rightarrow> Some y)"

text \<open>\<^verbatim>\<open>$\<close>: the end of the string, or just before a newline that ends it.\<close>

definition at_end :: "string \<Rightarrow> bool" where
  "at_end s = (s = [] \<or> s = [CHR 0x0A])"

text \<open>
  The pattern from its end to its start: \<^verbatim>\<open>(\d+)$\<close> after a carrier code, then
  \<^verbatim>\<open>0*\<close> before it, then \<^verbatim>\<open>\s*\<close> before that, then the group of the carrier code.
\<close>

definition match_digits :: "string \<Rightarrow> string \<Rightarrow> (string \<times> string) option" where
  "match_digits code r =
     first_match (\<lambda>i. if at_end (drop i r) then Some (code, take i r) else None)
       (greedy 1 (length (takeWhile is_decimal r)))"

definition match_zeros :: "string \<Rightarrow> string \<Rightarrow> (string \<times> string) option" where
  "match_zeros code r =
     first_match (\<lambda>j. match_digits code (drop j r))
       (greedy 0 (length (takeWhile (\<lambda>c. c = CHR ''0'') r)))"

definition match_spaces :: "string \<Rightarrow> string \<Rightarrow> (string \<times> string) option" where
  "match_spaces code r =
     first_match (\<lambda>k. match_zeros code (drop k r))
       (greedy 0 (length (takeWhile is_space r)))"

definition flight_number_match :: "string \<Rightarrow> (string \<times> string) option" where
  "flight_number_match s =
     first_match (\<lambda>n. match_spaces (take n s) (drop n s))
       (greedy 2 (min 3 (length (takeWhile is_code_char s))))"

text \<open>\<^verbatim>\<open>format_flight_number\<close> of \<^verbatim>\<open>katowise_v3.py\<close>.\<close>

definition format_flight_number :: "pyval \<Rightarrow> error + string" where
  "format_flight_number raw_flight_number =
     (case raw_flight_number of
        PStr raw \<Rightarrow>
          (case flight_number_match (str_strip raw) of
             Some (airline_code, number) \<Rightarrow> Inr (airline_code @ number)
           | None \<Rightarrow> Inr raw)
      | _ \<Rightarrow> Inl AttributeError)"

section \<open>Dates and instants\<close>

text \<open>
  A \<^verbatim>\<open>datetime.date\<close> is a year, a month and a day; Python builds only dates of the
  calendar, from 0001-01-01 to 9999-12-31, and compares them field by field.
\<close>

record date =
  year :: nat
  month :: nat
  day :: nat

definition is_leap :: "nat \<Rightarrow> bool" where
  "is_leap y = (y mod 4 = 0 \<and> (y mod 100 \<noteq> 0 \<or> y mod 400 = 0))"

definition days_in_month :: "nat \<Rightarrow> nat \<Rightarrow> nat" where
  "days_in_month y m =
     (if m = 2 then (if is_leap y then 29 else 28)
      else if m = 4 \<or> m = 6 \<or> m = 9 \<or> m = 11 then 30
      else 31)"

definition valid_date :: "date \<Rightarrow> bool" where
  "valid_date d =
     (1 \<le> year d \<and> year d \<le> 9999 \<and> 1 \<le> month d \<and> month d \<le> 12 \<and>
      1 \<le> day d \<and> day d \<le> days_in_month (year d) (month d))"

definition date_min :: date where
  "date_min = \<lparr>year = 1, month = 1, day = 1\<rparr>"

definition date_max :: date where
  "date_max = \<lparr>year = 9999, month = 12, day = 31\<rparr>"

text \<open>\<^verbatim>\<open>a <= b\<close> on dates.\<close>

definition date_le :: "date \<Rightarrow> date \<Rightarrow> bool" where
  "date_le a b =
     (year a < year b \<or>
      (year a = year b \<and> (month a < month b \<or> (month a = month b \<and> day a \<le> day b))))"

text \<open>The day after and the day before, for \<^verbatim>\<open>timedelta\<close> arithmetic.\<close>

definition next_day :: "date \<Rightarrow> date" where
  "next_day d =
     (if day d < days_in_month (year d) (month d) then d\<lparr>day := day d + 1\<rparr>
      else if month d < 12 then \<lparr>year = year d, month = month d + 1, day = 1\<rparr>
      else \<lparr>year = year d + 1, month = 1, day = 1\<rparr>)"

definition prev_day :: "date \<Rightarrow> date" where
  "prev_day d =
     (if 1 < day d then d\<lparr>day := day d - 1\<rparr>
      else if 1 < month d
      then \<lparr>year = year d, month = month d - 1, day = days_in_month (year d) (month d - 1)\<rparr>
      else \<lparr>year = year d - 1, month = 12, day = 31\<rparr>)"

text \<open>
  An aware \<^verbatim>\<open>datetime\<close>: its arithmetic with a \<^verbatim>\<open>timedelta\<close> works on the wall clock
  and keeps the time zone, so the zone is not a field here.
\<close>

record datetime =
  date_part :: date
  hour :: nat
  minute :: nat
  second :: nat
  microsecond :: nat

text \<open>
  \<^verbatim>\<open>t - timedelta(hours=12)\<close> and \<^verbatim>\<open>t + timedelta(hours=12)\<close>; Python raises
  \<^verbatim>\<open>OverflowError\<close> when the result leaves the calendar.
\<close>

definition minus_12h :: "datetime \<Rightarrow> error + datetime" where
  "minus_12h t =
     (if 12 \<le> hour t then Inr (t\<lparr>hour := hour t - 12\<rparr>)
      else if date_part t = date_min then Inl OverflowError
      else Inr (t\<lparr>date_part := prev_day (date_part t), hour := hour t + 12\<rparr>))"

definition plus_12h :: "datetime \<Rightarrow> error + datetime" where
  "plus_12h t =
     (if hour t < 12 then Inr (t\<lparr>hour := hour t + 12\<rparr>)
      else if date_part t = date_max then Inl OverflowError
      else Inr (t\<lparr>date_part := next_day (date_part t), hour := hour t - 12\<rparr>))"

subsection \<open>The date window\<close>

text \<open>
  The \<^verbatim>\<open>while\<close> loop of \<^verbatim>\<open>calculate_date_window\<close> (the same in both scripts):
  \<^verbatim>\<open>current_date += timedelta(days=1)\<close> raises on the last day of the calendar.
\<close>

function date_loop :: "date \<Rightarrow> date \<Rightarrow> date set \<Rightarrow> error + date set" where
  "date_loop current_date end_date dates =
     (if date_le current_date end_date
      then (if current_date = date_max then Inl OverflowError
            else date_loop (next_day current_date) end_date (insert current_date dates))
      else Inr dates)"
  by pat_completeness auto
termination
  by (relation "measure (\<lambda>(c, e, s).
        (year e + 1 - year c) * 400 + (12 - month c) * 32 + (31 - day c))")
     (auto simp: date_le_def next_day_def days_in_month_def split: if_splits)

declare date_loop.simps [simp del]

definition calculate_date_window :: "datetime \<Rightarrow> error + date set" where
  "calculate_date_window now =
     (case minus_12h now of
        Inl e \<Rightarrow> Inl e
      | Inr time_window_start \<Rightarrow>
          (case plus_12h now of
             Inl e \<Rightarrow> Inl e
           | Inr time_window_end \<Rightarrow>
               date_loop (date_part time_window_start) (date_part time_window_end) {}))"

subsection \<open>Rendering\<close>

definition digit_char :: "nat \<Rightarrow> char" where
  "digit_char n = char_of (48 + n)"

fun decimal :: "nat \<Rightarrow> string" where
  "decimal n = (if n < 10 then [digit_char n] else decimal (n div 10) @ [digit_char (n mod 10)])"

declare decimal.simps [simp del]

text \<open>\<^verbatim>\<open>"%0wd" % n\<close>.\<close>

definition zero_pad :: "nat \<Rightarrow> nat \<Rightarrow> string" where
  "zero_pad w n = replicate (w - length (decimal n)) (CHR ''0'') @ decimal n"

definition date_isoformat :: "date \<Rightarrow> string" where
  "date_isoformat d =
     zero_pad 4 (year d) @ ''-'' @ zero_pad 2 (month d) @ ''-'' @ zero_pad 2 (day d)"

text \<open>\<^verbatim>\<open>strftime("%H:%M")\<close>.\<close>

definition hhmm :: "datetime \<Rightarrow> string" where
  "hhmm t = zero_pad 2 (hour t) @ '':'' @ zero_pad 2 (minute t)"

text \<open>
  \<^verbatim>\<open>strftime("%Y-%m-%d")\<close> as the C library of Linux writes it: the year without padding,
  so \<^verbatim>\<open>999-05-19\<close> where \<^verbatim>\<open>isoformat\<close> writes \<^verbatim>\<open>0999-05-19\<close>.
\<close>

definition strftime_ymd :: "date \<Rightarrow> string" where
  "strftime_ymd d = decimal (year d) @ ''-'' @ zero_pad 2 (month d) @ ''-'' @ zero_pad 2 (day d)"

text \<open>\<^verbatim>\<open>get_time_range\<close> (the same in both scripts).\<close>

definition get_time_range :: "date \<Rightarrow> datetime \<Rightarrow> error + string \<times> string" where
  "get_time_range query_date now =
     (case minus_12h now of
        Inl e \<Rightarrow> Inl e
      | Inr time_window_start \<Rightarrow>
          (case plus_12h now of
             Inl e \<Rightarrow> Inl e
           | Inr time_window_end \<Rightarrow>
               Inr (if query_date = date_part time_window_start then hhmm time_window_start
                    else ''00:00'',
                    if query_date = date_part time_window_end then hhmm time_window_end
                    else ''23:59'')))"

subsection \<open>Time zones\<close>

text \<open>
  The zone comes from \<^verbatim>\<open>pytz\<close>. All the scripts ask of it is
  \<^verbatim>\<open>tz.localize(dt).isoformat(timespec='milliseconds')\<close> for a naive \<^verbatim>\<open>dt\<close> of a date, an
  hour and a minute, so a zone is the function that gives the UTC offset, in minutes, it
  attaches to that wall-clock time, or \<open>None\<close> where \<^verbatim>\<open>localize\<close> raises. An offset of a
  day or more makes \<^verbatim>\<open>isoformat\<close> raise.
\<close>

type_synonym tzinfo = "date \<Rightarrow> nat \<Rightarrow> nat \<Rightarrow> int option"

definition format_offset :: "int \<Rightarrow> string" where
  "format_offset off =
     (let a = nat \<bar>off\<bar>
      in (if off < 0 then ''-'' else ''+'') @ zero_pad 2 (a div 60) @ '':'' @ zero_pad 2 (a mod 60))"

definition localize_isoformat :: "tzinfo \<Rightarrow> date \<Rightarrow> nat \<Rightarrow> nat \<Rightarrow> error + string" where
  "localize_isoformat tz d h m =
     (case tz d h m of
        None \<Rightarrow> Inl ValueError
      | Some off \<Rightarrow>
          if \<bar>off\<bar> < 1440
          then Inr (date_isoformat d @ ''T'' @ zero_pad 2 h @ '':'' @ zero_pad 2 m @
                    '':00.000'' @ format_offset off)
          else Inl ValueError)"

text \<open>
  The shape of a rendered instant, \<^verbatim>\<open>YYYY-MM-DDTHH:MM:SS.mmm+HH:MM\<close>: in the template a
  \<^verbatim>\<open>d\<close> stands for a decimal digit and \<^verbatim>\<open>+\<close> for a sign.
\<close>

definition template_char :: "char \<Rightarrow> char \<Rightarrow> bool" where
  "template_char t c =
     (if t = CHR ''d'' then is_decimal c
      else if t = CHR ''+'' then c = CHR ''+'' \<or> c = CHR ''-''
      else c = t)"

definition is_iso_timestamp :: "string \<Rightarrow> bool" where
  "is_iso_timestamp s = list_all2 template_char ''dddd-dd-ddTdd:dd:dd.ddd+dd:dd'' s"

section \<open>Times of a flight\<close>

text \<open>
  The body of the \<^verbatim>\<open>try\<close> in \<^verbatim>\<open>parse_flight_time\<close> (the same in both scripts):
  \<^verbatim>\<open>hour, minute = map(int, time_str.split(":"))\<close> wants exactly two pieces, both
  integers; \<^verbatim>\<open>datetime.time(hour, minute)\<close> wants an hour below 24 and a minute below 60.
\<close>

definition read_flight_time :: "pyval \<Rightarrow> date \<Rightarrow> tzinfo \<Rightarrow> error + string" where
  "read_flight_time time_str d tz =
     (case time_str of
        PStr s \<Rightarrow>
          (case map py_int (str_split_on (CHR '':'') s) of
             [Some h, Some m] \<Rightarrow>
               if 0 \<le> h \<and> h \<le> 23 \<and> 0 \<le> m \<and> m \<le> 59
               then localize_isoformat tz d (nat h) (nat m)
               else Inl ValueError
           | _ \<Rightarrow> Inl ValueError)
      | _ \<Rightarrow> Inl AttributeError)"

text \<open>
  \<^verbatim>\<open>parse_flight_time\<close> of \<^verbatim>\<open>19_05_flight.py\<close>: every exception is caught (and
  printed), and the answer is then \<^verbatim>\<open>"N/A"\<close>. The output stream is taken to accept every
  character of the message, so that \<^verbatim>\<open>print\<close> in the handler does not raise in its turn.
\<close>

definition parse_flight_time_1905 :: "pyval \<Rightarrow> date \<Rightarrow> tzinfo \<Rightarrow> string" where
  "parse_flight_time_1905 time_str d tz =
     (if \<not> truthy time_str then ''N/A''
      else case read_flight_time time_str d tz of
             Inl e \<Rightarrow> ''N/A''
           | Inr s \<Rightarrow> s)"

text \<open>\<^verbatim>\<open>parse_flight_time\<close> of \<^verbatim>\<open>katowise_v3.py\<close> answers \<^verbatim>\<open>None\<close> instead.\<close>

definition parse_flight_time_v3 :: "pyval \<Rightarrow> date \<Rightarrow> tzinfo \<Rightarrow> string option" where
  "parse_flight_time_v3 time_str d tz =
     (if \<not> truthy time_str then None
      else case read_flight_time time_str d tz of
             Inl e \<Rightarrow> None
           | Inr s \<Rightarrow> Some s)"

text \<open>\<^verbatim>\<open>re.match(r'^\d{2}:\d{2}$', token)\<close>.\<close>

definition time_token_match :: "string \<Rightarrow> bool" where
  "time_token_match s =
     (case s of
        a # b # c # d # e # rest \<Rightarrow>
          is_decimal a \<and> is_decimal b \<and> c = CHR '':'' \<and> is_decimal d \<and> is_decimal e \<and>
          at_end rest
      | _ \<Rightarrow> False)"

text \<open>
  The pattern as the specification words it, "two digits, a colon, and two digits", to be
  compared with the match above on the tokens of a status.
\<close>

definition strict_hh_mm :: "string \<Rightarrow> bool" where
  "strict_hh_mm t =
     (length t = 5 \<and> is_decimal (t ! 0) \<and> is_decimal (t ! 1) \<and> t ! 2 = CHR '':'' \<and>
      is_decimal (t ! 3) \<and> is_decimal (t ! 4))"

text \<open>
  What the specification means by such a token \<^verbatim>\<open>HH:MM\<close> "reconstructed against the query
  date, timezone-localized", written out digit by digit and without the parser of the
  scripts: the hour and the minute are the numbers the digits spell; the instant is the
  date, the token itself as the time of day, zero seconds and milliseconds, and the offset
  the zone gives to that time of that day. There is no instant when the hour is not below
  24, the minute not below 60, or the zone has no offset of less than a day to give.
\<close>

definition digit_of :: "char \<Rightarrow> nat" where
  "digit_of c = code_point c - 48"

definition hh_mm_hour :: "string \<Rightarrow> nat" where
  "hh_mm_hour t = 10 * digit_of (t ! 0) + digit_of (t ! 1)"

definition hh_mm_minute :: "string \<Rightarrow> nat" where
  "hh_mm_minute t = 10 * digit_of (t ! 3) + digit_of (t ! 4)"

definition two_digits :: "nat \<Rightarrow> string" where
  "two_digits n = [digit_char (n div 10), digit_char (n mod 10)]"

definition four_digits :: "nat \<Rightarrow> string" where
  "four_digits n =
     [digit_char (n div 1000), digit_char (n div 100 mod 10), digit_char (n div 10 mod 10),
      digit_char (n mod 10)]"

definition iso_instant :: "date \<Rightarrow> string \<Rightarrow> int \<Rightarrow> string" where
  "iso_instant d t off =
     four_digits (year d) @ ''-'' @ two_digits (month d) @ ''-'' @ two_digits (day d) @
     ''T'' @ t @ '':00.000'' @ (if off < 0 then ''-'' else ''+'') @
     two_digits (nat \<bar>off\<bar> div 60) @ '':'' @ two_digits (nat \<bar>off\<bar> mod 60)"

definition token_instant :: "string \<Rightarrow> date \<Rightarrow> tzinfo \<Rightarrow> string option" where
  "token_instant t d tz =
     (if hh_mm_hour t < 24 \<and> hh_mm_minute t < 60
      then (case tz d (hh_mm_hour t) (hh_mm_minute t) of
              None \<Rightarrow> None
            | Some off \<Rightarrow> if \<bar>off\<bar> < 1440 then Some (iso_instant d t off) else None)
      else None)"

text \<open>\<^verbatim>\<open>extract_times\<close> of \<^verbatim>\<open>19_05_flight.py\<close>: scheduled, estimated, actual.\<close>

definition extract_times_1905 ::
  "string \<Rightarrow> pyval \<Rightarrow> tzinfo \<Rightarrow> date \<Rightarrow> string \<times> string \<times> string" where
  "extract_times_1905 status scheduled_time tz query_date =
     (let status_parts = str_split status;
          (estimated_time, actual_time) =
            (if 1 < length status_parts \<and> time_token_match (last status_parts)
             then (let time_part = last status_parts;
                       time_parsed = parse_flight_time_1905 (PStr time_part) query_date tz
                   in (time_parsed, time_parsed))
             else (''N/A'', ''N/A''));
          scheduled_time_parsed = parse_flight_time_1905 scheduled_time query_date tz
      in (scheduled_time_parsed, estimated_time, actual_time))"

text \<open>
  \<^verbatim>\<open>extract_times\<close> of \<^verbatim>\<open>katowise_v3.py\<close>: \<^verbatim>\<open>None\<close> is replaced by \<^verbatim>\<open>"N/A"\<close> in the
  estimated and the actual time; the scheduled time is returned as parsed.
\<close>

definition extract_times_v3 ::
  "string \<Rightarrow> pyval \<Rightarrow> tzinfo \<Rightarrow> date \<Rightarrow> string option \<times> string \<times> string" where
  "extract_times_v3 status scheduled_time tz query_date =
     (let status_parts = str_split status;
          estimated_time =
            (if 1 < length status_parts \<and> time_token_match (last status_parts)
             then parse_flight_time_v3 (PStr (last status_parts)) query_date tz
             else None);
          actual_time = estimated_time;
          scheduled_time_parsed = parse_flight_time_v3 scheduled_time query_date tz;
          estimated_time' = (case estimated_time of None \<Rightarrow> ''N/A'' | Some s \<Rightarrow> s);
          actual_time' = (case actual_time of None \<Rightarrow> ''N/A'' | Some s \<Rightarrow> s)
      in (scheduled_time_parsed, estimated_time', actual_time'))"

section \<open>Directions\<close>

text \<open>\<^verbatim>\<open>validate_direction\<close> (the same in both scripts): 1 is a departure, 2 an arrival.\<close>

definition validate_direction :: "string \<Rightarrow> error + int" where
  "validate_direction direction_str =
     (let s = str_strip (str_lower direction_str)
      in if s = ''departure'' \<or> s = ''departures'' then Inr 1
         else if s = ''arrival'' \<or> s = ''arrivals'' then Inr 2
         else Inl ValueError)"

section \<open>Normalizing one entry\<close>

subsection \<open>The variant with the table of airport codes\<close>

text \<open>\<^verbatim>\<open>is_third_char_alphabet\<close> and \<^verbatim>\<open>get_flight_iata\<close> of \<^verbatim>\<open>19_05_flight.py\<close>.\<close>

definition is_third_char_alphabet :: "string \<Rightarrow> bool" where
  "is_third_char_alphabet s = (if length s < 3 then False else \<not> is_alpha (s ! 2))"

definition get_flight_iata :: "string \<Rightarrow> string" where
  "get_flight_iata flight_number = take 2 flight_number"

text \<open>
  \<^verbatim>\<open>process_flight\<close> of \<^verbatim>\<open>19_05_flight.py\<close>. \<^verbatim>\<open>get\<close> is a method of a \<^verbatim>\<open>dict\<close>, and
  \<^verbatim>\<open>strip\<close> one of a \<^verbatim>\<open>str\<close>: on any other value the lookup of the method raises
  \<^verbatim>\<open>AttributeError\<close>. The record is the \<^verbatim>\<open>dict\<close> the function returns.
\<close>

definition process_flight_1905 ::
  "pyval \<Rightarrow> int \<Rightarrow> (string \<times> string) list \<Rightarrow> tzinfo \<Rightarrow> date \<Rightarrow> error + (string \<times> pyval) list" where
  "process_flight_1905 flight_data direction codes tz query_date =
     (case flight_data of
        PDict fd \<Rightarrow>
          (case clean_flight_number (dict_get fd ''flight_number'' (PStr [])) of
             Inl e \<Rightarrow> Inl e
           | Inr formatted_flight_number \<Rightarrow>
               (case dict_get fd ''airport'' (PStr []) of
                  PStr airport_raw \<Rightarrow>
                    (case dict_get fd ''airline_name'' (PStr []) of
                       PStr airline_raw \<Rightarrow>
                         (case dict_get fd ''status'' (PStr []) of
                            PStr status_raw \<Rightarrow>
                              (let airport_name = str_remove (CHR ''.'') (str_strip airport_raw);
                                   airline_name = str_remove (CHR ''.'') (str_strip airline_raw);
                                   scheduled_time = dict_get fd ''scheduled_time'' (PStr []);
                                   status = str_strip status_raw;
                                   (scheduled, estimated, actual) =
                                     extract_times_1905 status scheduled_time tz query_date;
                                   other_airport =
                                     (case map_of codes airport_name of
                                        Some code \<Rightarrow> code
                                      | None \<Rightarrow> str_remove (CHR '' '') airport_name);
                                   is_flight = is_third_char_alphabet formatted_flight_number;
                                   iata = (if is_flight then get_flight_iata formatted_flight_number
                                           else ''N/A'')
                               in if direction = 2
                                  then Inr
                                    [(''flight_number'', PStr formatted_flight_number),
                                     (''is_flight_number'', PBool is_flight),
                                     (''callsign'', PStr formatted_flight_number),
                                     (''airline'', PStr airline_name),
                                     (''departure_airport'', PStr (str_upper other_airport)),
                                     (''arrival_airport'', PStr (str_upper ''KTW'')),
                                     (''scheduled_arrival_time'', PStr scheduled),
                                     (''estimated_arrival_time'', PStr estimated),
                                     (''actual_arrival_time'', PStr actual),
                                     (''status'', PStr (if status \<noteq> [] then status else ''N/A'')),
                                     (''airline_iata_code'', PStr iata)]
                                  else Inr
                                    [(''flight_number'', PStr formatted_flight_number),
                                     (''is_flight_number'', PBool is_flight),
                                     (''callsign'', PStr formatted_flight_number),
                                     (''airline'', PStr airline_name),
                                     (''departure_airport'', PStr (str_upper ''KTW'')),
                                     (''arrival_airport'', PStr (str_upper other_airport)),
                                     (''scheduled_departure_time'', PStr scheduled),
                                     (''estimated_departure_time'', PStr estimated),
                                     (''actual_departure_time'', PStr actual),
                                     (''status'', PStr (if status \<noteq> [] then status else ''N/A'')),
                                     (''airline_iata_code'', PStr iata)])
                          | _ \<Rightarrow> Inl AttributeError)
                     | _ \<Rightarrow> Inl AttributeError)
                | _ \<Rightarrow> Inl AttributeError))
      | _ \<Rightarrow> Inl AttributeError)"

subsection \<open>The variant with terminal and gate\<close>

text \<open>
  \<^verbatim>\<open>process_flight\<close> of \<^verbatim>\<open>katowise_v3.py\<close>, a function of four parameters. Airport,
  airline, terminal, gate and check-in are passed through as they are; a scheduled time
  of \<^verbatim>\<open>None\<close> is stored as \<^verbatim>\<open>None\<close>.
\<close>

definition process_flight_v3 ::
  "pyval \<Rightarrow> int \<Rightarrow> tzinfo \<Rightarrow> date \<Rightarrow> error + (string \<times> pyval) list" where
  "process_flight_v3 flight_data direction tz query_date =
     (case flight_data of
        PDict fd \<Rightarrow>
          (case format_flight_number (dict_get fd ''flight_number'' (PStr [])) of
             Inl e \<Rightarrow> Inl e
           | Inr formatted_flight_number \<Rightarrow>
               (case dict_get fd ''status'' (PStr []) of
                  PStr status_raw \<Rightarrow>
                    (let airport_name = dict_get fd ''airport'' (PStr []);
                         airline_name = dict_get fd ''airline_name'' (PStr []);
                         scheduled_time = dict_get fd ''scheduled_time'' (PStr []);
                         terminal = dict_get fd ''terminal'' (PStr []);
                         status = str_strip status_raw;
                         (scheduled, estimated, actual) =
                           extract_times_v3 status scheduled_time tz query_date;
                         scheduled_value = (case scheduled of None \<Rightarrow> PNone | Some s \<Rightarrow> PStr s)
                     in if direction = 2
                        then Inr
                          [(''flight_number'', PStr formatted_flight_number),
                           (''callsign'', PStr formatted_flight_number),
                           (''airline'', airline_name),
                           (''departure_airport'', airport_name),
                           (''scheduled_arrival_time'', scheduled_value),
                           (''estimated_arrival_time'', PStr estimated),
                           (''actual_arrival_time'', PStr actual),
                           (''status'', PStr (if status \<noteq> [] then status else ''N/A'')),
                           (''terminal'', terminal)]
                        else Inr
                          [(''flight_number'', PStr formatted_flight_number),
                           (''callsign'', PStr formatted_flight_number),
                           (''airline'', airline_name),
                           (''arrival_airport'', airport_name),
                           (''scheduled_departure_time'', scheduled_value),
                           (''estimated_departure_time'', PStr estimated),
                           (''actual_departure_time'', PStr actual),
                           (''status'', PStr (if status \<noteq> [] then status else ''N/A'')),
                           (''terminal'', terminal),
                           (''boarding_gate'', dict_get fd ''boarding_gate'' PNone),
                           (''checkin_location'', dict_get fd ''checkin_location'' PNone)])
                | _ \<Rightarrow> Inl AttributeError))
      | _ \<Rightarrow> Inl AttributeError)"

text \<open>
  A call binds its positional arguments to the parameters of the function, and raises
  \<^verbatim>\<open>TypeError\<close> when there are more or fewer of them. The arguments \<^verbatim>\<open>get_flights\<close>
  has at hand are an entry, the direction, the table of airport codes, the zone and the
  date of the query.
\<close>

datatype argument =
    Entry pyval
  | Direction int
  | Codes "(string \<times> string) list"
  | Zone tzinfo
  | Day date

definition call_process_flight_v3 :: "argument list \<Rightarrow> error + (string \<times> pyval) list" where
  "call_process_flight_v3 args =
     (if length args \<noteq> 4 then Inl TypeError
      else case args of
             [Entry flight_data, Direction direction, Zone tz, Day query_date] \<Rightarrow>
               process_flight_v3 flight_data direction tz query_date
           | _ \<Rightarrow> Inl TypeError)"

section \<open>The query loop\<close>

text \<open>
  \<^verbatim>\<open>get_flights\<close> is the same in both scripts but for the call of \<^verbatim>\<open>process_flight\<close>.
  The HTTP session is a function from the parameters of a request to what
  \<^verbatim>\<open>session.get\<close>, \<^verbatim>\<open>raise_for_status\<close> and \<^verbatim>\<open>response.json\<close> give together: the
  decoded body or the exception raised. The requests issued are logged in order.
\<close>

record request =
  req_direction :: int
  req_date :: string
  req_time_from :: string
  req_time_to :: string

type_synonym api = "request \<Rightarrow> error + pyval"

definition airport_codes :: "(string \<times> string) list" where
  "airport_codes =
     [(''Katowice'', ''KTW''), (''Frankfurt'', ''FRA''), (''Warsaw'', ''WAW''),
      (''Munich'', ''MUC''), (''Split'', ''SPU''), (''Reykjav'' @ [CHR 0xED] @ ''k'', ''KEF''),
      (''Katania'', ''CTA''), (''Larnaka'', ''LCA''), (''Alghero'', ''AHO''),
      (''Teneryfa'', ''TFS''), (''Rzym'', ''FCO''), (''Mediolan Bergamo'', ''BGY''),
      (''Londyn Luton'', ''LTN'')]"

text \<open>\<^verbatim>\<open>for x in v\<close>: what the loop runs over, or \<^verbatim>\<open>TypeError\<close>.\<close>

definition py_iter :: "pyval \<Rightarrow> error + pyval list" where
  "py_iter v =
     (case v of
        PList xs \<Rightarrow> Inr xs
      | PDict kvs \<Rightarrow> Inr (map PStr (remdups (map fst kvs)))
      | PStr s \<Rightarrow> Inr (map (\<lambda>c. PStr [c]) s)
      | _ \<Rightarrow> Inl TypeError)"

text \<open>
  The inner loop appends to \<^verbatim>\<open>all_flights\<close> in place: when an entry raises, the list
  keeps what was appended before. The result is the list and the exception, if any.
\<close>

fun append_flights ::
  "(pyval \<Rightarrow> error + (string \<times> pyval) list) \<Rightarrow> pyval list \<Rightarrow> (string \<times> pyval) list list \<Rightarrow>
   (string \<times> pyval) list list \<times> error option" where
  "append_flights process [] all_flights = (all_flights, None)"
| "append_flights process (flight_data # rest) all_flights =
     (case process flight_data of
        Inl e \<Rightarrow> (all_flights, Some e)
      | Inr flight \<Rightarrow>
          append_flights process rest
            (if flight \<noteq> [] then all_flights @ [flight] else all_flights))"

text \<open>The \<^verbatim>\<open>try\<close> statement: only a \<^verbatim>\<open>RequestException\<close> is caught.\<close>

definition try_request ::
  "(pyval \<Rightarrow> error + (string \<times> pyval) list) \<Rightarrow> api \<Rightarrow> request \<Rightarrow> (string \<times> pyval) list list \<Rightarrow>
   (string \<times> pyval) list list \<times> error option" where
  "try_request process fetch params all_flights =
     (let (flights, raised) =
            (case fetch params of
               Inl e \<Rightarrow> (all_flights, Some e)
             | Inr data \<Rightarrow>
                 (case data of
                    PDict d \<Rightarrow>
                      (case py_iter (dict_get d ''data'' (PList [])) of
                         Inl e \<Rightarrow> (all_flights, Some e)
                       | Inr entries \<Rightarrow> append_flights process entries all_flights)
                  | _ \<Rightarrow> (all_flights, Some AttributeError)))
      in if raised = Some RequestException then (flights, None) else (flights, raised))"

fun query_dates ::
  "(pyval \<Rightarrow> date \<Rightarrow> error + (string \<times> pyval) list) \<Rightarrow> api \<Rightarrow> int \<Rightarrow> datetime \<Rightarrow> date list \<Rightarrow>
   request list \<Rightarrow> (string \<times> pyval) list list \<Rightarrow>
   request list \<times> (error + (string \<times> pyval) list list)" where
  "query_dates process fetch direction now [] issued all_flights = (issued, Inr all_flights)"
| "query_dates process fetch direction now (query_date # rest) issued all_flights =
     (case get_time_range query_date now of
        Inl e \<Rightarrow> (issued, Inl e)
      | Inr (t_from, t_to) \<Rightarrow>
          (let params = \<lparr>req_direction = direction, req_date = strftime_ymd query_date,
                         req_time_from = t_from, req_time_to = t_to\<rparr>;
               (flights, raised) =
                 try_request (\<lambda>flight_data. process flight_data query_date) fetch params all_flights
           in case raised of
                Some e \<Rightarrow> (issued @ [params], Inl e)
              | None \<Rightarrow> query_dates process fetch direction now rest (issued @ [params]) flights))"

text \<open>
  The body of \<^verbatim>\<open>get_flights\<close>, given the call of \<^verbatim>\<open>process_flight\<close>, the clock reading
  \<^verbatim>\<open>now\<close>, the order in which the set of dates is run over, and the API. It returns the
  requests issued and the list of flights or the exception that ends the function.
\<close>

definition get_flights_with ::
  "(pyval \<Rightarrow> int \<Rightarrow> date \<Rightarrow> error + (string \<times> pyval) list) \<Rightarrow> string \<Rightarrow> datetime \<Rightarrow>
   (date set \<Rightarrow> date list) \<Rightarrow> api \<Rightarrow> request list \<times> (error + (string \<times> pyval) list list)" where
  "get_flights_with process direction_str now order fetch =
     (case validate_direction direction_str of
        Inl e \<Rightarrow> ([], Inl e)
      | Inr direction \<Rightarrow>
          (case calculate_date_window now of
             Inl e \<Rightarrow> ([], Inl e)
           | Inr dates_to_query \<Rightarrow>
               query_dates (\<lambda>flight_data. process flight_data direction) fetch direction now
                 (order dates_to_query) [] []))"

text \<open>\<^verbatim>\<open>get_flights\<close> of \<^verbatim>\<open>19_05_flight.py\<close>: five arguments for five parameters.\<close>

definition get_flights_1905 ::
  "string \<Rightarrow> tzinfo \<Rightarrow> datetime \<Rightarrow> (date set \<Rightarrow> date list) \<Rightarrow> api \<Rightarrow>
   request list \<times> (error + (string \<times> pyval) list list)" where
  "get_flights_1905 direction_str warsaw_tz now order fetch =
     get_flights_with
       (\<lambda>flight_data direction query_date.
          process_flight_1905 flight_data direction airport_codes warsaw_tz query_date)
       direction_str now order fetch"

text \<open>
  \<^verbatim>\<open>get_flights\<close> of \<^verbatim>\<open>katowise_v3.py\<close> calls
  \<^verbatim>\<open>process_flight(flight_data, direction, airport_codes, warsaw_tz, query_date)\<close>.
\<close>

definition get_flights_v3 ::
  "string \<Rightarrow> tzinfo \<Rightarrow> datetime \<Rightarrow> (date set \<Rightarrow> date list) \<Rightarrow> api \<Rightarrow>
   request list \<times> (error + (string \<times> pyval) list list)" where
  "get_flights_v3 direction_str warsaw_tz now order fetch =
     get_flights_with
       (\<lambda>flight_data direction query_date.
          call_process_flight_v3
            [Entry flight_data, Direction direction, Codes airport_codes, Zone warsaw_tz,
             Day query_date])
       direction_str now order fetch"

section \<open>Properties of the flight-number rules\<close>

text \<open>
  The canonical forms the two rules give on the examples of the specification, and what
  the fixed-position rule does with \<^verbatim>\<open>FR9023\<close>: the character at index 2 is not a zero, so
  the number is left alone.
\<close>

lemma canonical_examples:
  "clean_flight_number (PStr ''LO 0123'') = Inr ''LO123'' \<and>
   clean_flight_number (PStr ''LO0123'') = Inr ''LO123'' \<and>
   format_flight_number (PStr ''W6 3104'') = Inr ''W63104'' \<and>
   clean_flight_number (PStr ''FR9023'') = Inr ''FR9023''"
  by code_simp

text \<open>
  C3. The specification expects the regex rule to leave \<^verbatim>\<open>FR9023\<close> unchanged. The greedy
  group \<^verbatim>\<open>[A-Z0-9]{2,3}\<close> takes \<^verbatim>\<open>FR9\<close> as the carrier code, \<^verbatim>\<open>0*\<close> then takes the zero
  as padding, and \<^verbatim>\<open>format_flight_number\<close> answers \<^verbatim>\<open>FR923\<close>.
\<close>

theorem format_flight_number_FR9023:
  "format_flight_number (PStr ''FR9023'') = Inr ''FR923''"
  by code_simp

subsection \<open>Where the two rules agree\<close>

text \<open>
  \<^verbatim>\<open>split\<close> with a separator gives at least one piece, so \<^verbatim>\<open>parts[0]\<close> and
  \<^verbatim>\<open>parts[-1]\<close> in \<^verbatim>\<open>clean_flight_number\<close> exist.
\<close>

lemma str_split_on_nonempty: "str_split_on sep s \<noteq> []"
  by (induction s) (auto split: list.splits)

lemma str_split_on_single: "sep \<notin> set b \<Longrightarrow> str_split_on sep b = [b]"
  by (induction b) auto

lemma str_split_on_first:
  "sep \<notin> set a \<Longrightarrow> str_split_on sep (a @ sep # b) = a # str_split_on sep b"
  by (induction a) auto

lemma str_split_on_run:
  "str_split_on sep (replicate k sep @ b) = replicate k [] @ str_split_on sep b"
  by (induction k) simp_all

lemma dropWhile_keeps:
  "xs \<noteq> [] \<Longrightarrow> \<not> P (hd xs) \<Longrightarrow> dropWhile P xs = xs"
  by (cases xs) simp_all

text \<open>\<^verbatim>\<open>strip\<close> takes the white space around a string away, and nothing else.\<close>

lemma str_strip_around:
  assumes "list_all is_space lead" and "list_all is_space trail"
    and "s \<noteq> []" and "\<not> is_space (hd s)" and "\<not> is_space (last s)"
  shows "str_strip (lead @ s @ trail) = s"
proof -
  have "dropWhile is_space (lead @ s @ trail) = dropWhile is_space (s @ trail)"
    by (rule dropWhile_append2) (use assms(1) in \<open>simp add: list_all_iff\<close>)
  also have "\<dots> = s @ trail"
    by (rule dropWhile_keeps) (use assms(3,4) in simp_all)
  finally have 1: "dropWhile is_space (lead @ s @ trail) = s @ trail" .
  have "dropWhile is_space (rev trail @ rev s) = dropWhile is_space (rev s)"
    by (rule dropWhile_append2) (use assms(2) in \<open>simp add: list_all_iff\<close>)
  also have "\<dots> = rev s"
    by (rule dropWhile_keeps) (use assms(3,5) in \<open>simp_all add: hd_rev\<close>)
  finally have 2: "dropWhile is_space (rev trail @ rev s) = rev s" .
  show ?thesis by (simp add: str_strip_def 1 2)
qed

text \<open>The two rules on a string whose stripped form is known.\<close>

lemma clean_flight_number_stripped:
  assumes "str_strip raw = s" and "s \<noteq> []"
  shows "clean_flight_number (PStr raw) =
           (if CHR '' '' \<in> set s
            then Inr (hd (str_split_on (CHR '' '') s) @
                      (if startswith_zero (last (str_split_on (CHR '' '') s))
                       then drop 1 (last (str_split_on (CHR '' '') s))
                       else last (str_split_on (CHR '' '') s)))
            else if startswith_zero (drop 2 s) then Inr (take 2 s @ drop 3 s)
            else Inr s)"
proof -
  have "raw \<noteq> []" using assms by (auto simp: str_strip_def)
  then show ?thesis
    by (simp add: clean_flight_number_def Let_def assms(1))
qed

lemma format_flight_number_stripped:
  assumes "str_strip raw = s" and "flight_number_match s = Some (code, num)"
  shows "format_flight_number (PStr raw) = Inr (code @ num)"
  using assms by (simp add: format_flight_number_def)

lemma decimal_not_space: "is_decimal c \<Longrightarrow> \<not> is_space c"
  by (auto simp: is_decimal_def is_space_def Let_def)

lemma code_char_not_space: "is_code_char c \<Longrightarrow> \<not> is_space c"
  by (auto simp: is_code_char_def is_space_def Let_def)

lemma decimal_code_char: "is_decimal c \<Longrightarrow> is_code_char c"
  by (auto simp: is_decimal_def is_code_char_def Let_def)

lemma blank_facts:
  "is_space (CHR '' '')" "\<not> is_code_char (CHR '' '')" "\<not> is_decimal (CHR '' '')"
  "is_decimal (CHR ''0'')"
  by code_simp+

text \<open>A greedy repetition stops at its longest length when the rest matches there.\<close>

lemma first_match_greedy:
  assumes "lo \<le> hi" and "f hi = Some y"
  shows "first_match f (greedy lo hi) = Some y"
proof -
  have "greedy lo hi = hi # rev [lo..<hi]"
    using assms(1) by (simp add: greedy_def)
  then show ?thesis using assms(2) by simp
qed

lemma match_digits_all:
  assumes "num \<noteq> []" and "list_all is_decimal num"
  shows "match_digits code num = Some (code, num)"
proof -
  have tw: "takeWhile is_decimal num = num"
    using assms(2) by (simp add: list_all_iff)
  show ?thesis
    unfolding match_digits_def tw
    by (rule first_match_greedy) (use assms(1) in \<open>auto simp: at_end_def Suc_le_eq\<close>)
qed

lemma takeWhile_run:
  "P c \<Longrightarrow> \<not> P a \<Longrightarrow> takeWhile P (replicate k c @ a # l) = replicate k c"
  by (induction k) simp_all

lemma match_zeros_padded:
  assumes "num \<noteq> []" and "list_all is_decimal num" and "hd num \<noteq> CHR ''0''"
  shows "match_zeros code (replicate p (CHR ''0'') @ num) = Some (code, num)"
proof -
  have tw: "takeWhile (\<lambda>c. c = CHR ''0'') (replicate p (CHR ''0'') @ num) = replicate p (CHR ''0'')"
    using assms(1,3) by (cases num) (simp_all add: takeWhile_run)
  show ?thesis
    unfolding match_zeros_def tw
    by (rule first_match_greedy) (simp_all add: match_digits_all[OF assms(1,2)])
qed

lemma match_spaces_blanks:
  assumes "num \<noteq> []" and "list_all is_decimal num" and "hd num \<noteq> CHR ''0''"
  shows "match_spaces code (replicate b (CHR '' '') @ replicate p (CHR ''0'') @ num) =
           Some (code, num)"
proof -
  obtain x rest where r: "replicate p (CHR ''0'') @ num = x # rest" and x: "\<not> is_space x"
  proof (cases p)
    case 0
    then show ?thesis
      using assms(1,2) decimal_not_space that by (cases num) auto
  next
    case (Suc q)
    then show ?thesis
      using decimal_not_space[OF blank_facts(4)] that by auto
  qed
  have tw: "takeWhile is_space (replicate b (CHR '' '') @ replicate p (CHR ''0'') @ num) =
              replicate b (CHR '' '')"
    unfolding r using blank_facts(1) x by (rule takeWhile_run)
  show ?thesis
    unfolding match_spaces_def tw
    by (rule first_match_greedy) (simp_all add: match_zeros_padded[OF assms])
qed

text \<open>
  On a carrier code, a run of blanks, a run of padding zeros and a number that starts
  with another digit, the pattern splits the string where a reader would.
\<close>

lemma flight_number_match_spaced:
  assumes len: "length code = 2 \<or> length code = 3"
      and cc: "list_all is_code_char code"
      and num: "num \<noteq> []" "list_all is_decimal num" "hd num \<noteq> CHR ''0''"
  shows "flight_number_match
           (code @ CHR '' '' # replicate b (CHR '' '') @ replicate p (CHR ''0'') @ num) =
         Some (code, num)"
proof -
  have tw: "takeWhile is_code_char
              (code @ CHR '' '' # replicate b (CHR '' '') @ replicate p (CHR ''0'') @ num) = code"
    using cc blank_facts(2) by (simp add: takeWhile_tail list_all_iff)
  have m: "min 3 (length code) = length code" and "2 \<le> length code"
    using len by auto
  then show ?thesis
    unfolding flight_number_match_def tw m
    using match_spaces_blanks[OF num, of code "Suc b" p]
    by (intro first_match_greedy) simp_all
qed

text \<open>
  With no blank, and a third character that is not a zero followed by digits that do
  not start with a zero, the pattern takes all the characters, three as the carrier
  code when a digit is left for the number and two otherwise.
\<close>

lemma greedy_2_3: "greedy 2 3 = [3, 2]"
  by code_simp

lemma flight_number_match_unspaced:
  assumes cc: "is_code_char c1" "is_code_char c2" "is_code_char x"
      and xz: "x \<noteq> CHR ''0''"
      and td: "list_all is_decimal tail"
      and tz: "tail = [] \<or> hd tail \<noteq> CHR ''0''"
      and nn: "tail \<noteq> [] \<or> is_decimal x"
  shows "\<exists>code num. flight_number_match ([c1, c2, x] @ tail) = Some (code, num) \<and>
           code @ num = [c1, c2, x] @ tail"
proof -
  have "list_all is_code_char ([c1, c2, x] @ tail)"
    using cc td decimal_code_char by (auto simp: list_all_iff)
  then have tw: "takeWhile is_code_char ([c1, c2, x] @ tail) = [c1, c2, x] @ tail"
    by (simp add: list_all_iff)
  have m: "min 3 (length ([c1, c2, x] @ tail)) = 3"
    by simp
  show ?thesis
  proof (cases "tail = []")
    case False
    then have "hd tail \<noteq> CHR ''0''" using tz by simp
    then have "match_spaces [c1, c2, x] tail = Some ([c1, c2, x], tail)"
      using match_spaces_blanks[OF False td, of "[c1, c2, x]" 0 0] by simp
    then have "flight_number_match ([c1, c2, x] @ tail) = Some ([c1, c2, x], tail)"
      unfolding flight_number_match_def tw m
      by (intro first_match_greedy) simp_all
    then show ?thesis by simp
  next
    case True
    then have dx: "is_decimal x" using nn by simp
    have none: "match_spaces [c1, c2, x] [] = None"
      by (simp add: match_spaces_def match_zeros_def match_digits_def greedy_def)
    have some: "match_spaces [c1, c2] [x] = Some ([c1, c2], [x])"
      using match_spaces_blanks[of "[x]" "[c1, c2]" 0 0] dx xz by simp
    have l: "min 3 (length (takeWhile is_code_char [c1, c2, x])) = 3"
      using cc by simp
    have td: "take 3 [c1, c2, x] = [c1, c2, x]" "drop 3 [c1, c2, x] = []"
      "take 2 [c1, c2, x] = [c1, c2]" "drop 2 [c1, c2, x] = [x]"
      by simp_all
    have "flight_number_match [c1, c2, x] = Some ([c1, c2], [x])"
      unfolding flight_number_match_def l greedy_2_3
      by (simp only: first_match.simps td none some option.case)
    then show ?thesis using True by simp
  qed
qed

text \<open>
  C4, as stated. The specification has the two rules give the same canonical form on
  every raw string. After a blank the split rule strips exactly one leading zero of the
  number and the pattern strips them all: on \<^verbatim>\<open>LO 00123\<close> the first answers \<^verbatim>\<open>LO0123\<close>
  and the second \<^verbatim>\<open>LO123\<close>.
\<close>

theorem strategies_differ_two_zeros:
  "clean_flight_number (PStr ''LO 00123'') = Inr ''LO0123'' \<and>
   format_flight_number (PStr ''LO 00123'') = Inr ''LO123''"
  by code_simp

text \<open>
  C4, amended. White space around the flight number does not count. On a carrier code of
  two or three characters of \<^verbatim>\<open>[A-Z0-9]\<close>, one or more blanks, \<open>p\<close> padding zeros and a
  number of decimal digits that starts with another digit, \<^verbatim>\<open>clean_flight_number\<close> gives
  the code, \<open>p - 1\<close> zeros and the number, \<^verbatim>\<open>format_flight_number\<close> gives the code and the
  number, and the two are equal exactly when there is at most one padding zero. On a
  string without blanks made of two characters of \<^verbatim>\<open>[A-Z0-9]\<close>, a third one that is not a
  zero, and digits that do not start with a zero (with a digit at the third place or
  after it), both rules give the string as it is. The statement says nothing of the other
  strings, among them those without a blank that have a zero at the third or the fourth
  place.
\<close>

theorem strategies_agree:
  assumes ws: "list_all is_space lead" "list_all is_space trail"
  shows "((length code = 2 \<or> length code = 3) \<and> list_all is_code_char code \<and> 0 < b \<and>
          num \<noteq> [] \<and> list_all is_decimal num \<and> hd num \<noteq> CHR ''0'' \<longrightarrow>
            clean_flight_number
              (PStr (lead @ code @ replicate b (CHR '' '') @ replicate p (CHR ''0'') @ num @ trail)) =
              Inr (code @ replicate (p - 1) (CHR ''0'') @ num) \<and>
            format_flight_number
              (PStr (lead @ code @ replicate b (CHR '' '') @ replicate p (CHR ''0'') @ num @ trail)) =
              Inr (code @ num) \<and>
            (clean_flight_number
               (PStr (lead @ code @ replicate b (CHR '' '') @ replicate p (CHR ''0'') @ num @ trail)) =
             format_flight_number
               (PStr (lead @ code @ replicate b (CHR '' '') @ replicate p (CHR ''0'') @ num @ trail))
             \<longleftrightarrow> p \<le> 1)) \<and>
         (is_code_char c1 \<and> is_code_char c2 \<and> is_code_char x \<and> x \<noteq> CHR ''0'' \<and>
          list_all is_decimal tail \<and> (tail = [] \<or> hd tail \<noteq> CHR ''0'') \<and>
          (tail \<noteq> [] \<or> is_decimal x) \<longrightarrow>
            clean_flight_number (PStr (lead @ [c1, c2, x] @ tail @ trail)) =
              Inr ([c1, c2, x] @ tail) \<and>
            format_flight_number (PStr (lead @ [c1, c2, x] @ tail @ trail)) =
              Inr ([c1, c2, x] @ tail))"
proof (intro conjI impI)
  assume h: "(length code = 2 \<or> length code = 3) \<and> list_all is_code_char code \<and> 0 < b \<and>
             num \<noteq> [] \<and> list_all is_decimal num \<and> hd num \<noteq> CHR ''0''"
  then have len: "length code = 2 \<or> length code = 3" and cc: "list_all is_code_char code"
    and b: "0 < b" and nn: "num \<noteq> []" and nd: "list_all is_decimal num"
    and nz: "hd num \<noteq> CHR ''0''"
    by simp_all
  obtain k where k: "b = Suc k" using b by (cases b) simp_all
  let ?rest = "replicate p (CHR ''0'') @ num"
  let ?s = "code @ CHR '' '' # replicate k (CHR '' '') @ ?rest"
  have raw: "lead @ code @ replicate b (CHR '' '') @ replicate p (CHR ''0'') @ num @ trail =
             lead @ ?s @ trail"
    by (simp add: k)
  have code_ne: "code \<noteq> []" using len by auto
  then have s_ne: "?s \<noteq> []" by simp
  have "is_code_char (hd code)" using cc code_ne by (cases code) simp_all
  then have h1: "\<not> is_space (hd ?s)"
    using code_ne code_char_not_space by simp
  have "is_decimal (last num)" using nd nn by (simp add: list_all_iff)
  then have l1: "\<not> is_space (last ?s)"
    using nn decimal_not_space by simp
  have strip: "str_strip (lead @ ?s @ trail) = ?s"
    by (rule str_strip_around[OF ws]) (use h1 l1 code_ne in simp_all)
  have no_blank_code: "CHR '' '' \<notin> set code"
    using cc blank_facts(2) by (auto simp: list_all_iff)
  have no_blank_rest: "CHR '' '' \<notin> set ?rest"
    using nd blank_facts(3) by (auto simp: list_all_iff)
  have parts: "str_split_on (CHR '' '') ?s = code # replicate k [] @ [?rest]"
    using str_split_on_first[OF no_blank_code, of "replicate k (CHR '' '') @ ?rest"]
      str_split_on_run[of "CHR '' ''" k ?rest] str_split_on_single[OF no_blank_rest]
    by simp
  have number: "(if startswith_zero ?rest then drop 1 ?rest else ?rest) =
                  replicate (p - 1) (CHR ''0'') @ num"
  proof (cases p)
    case 0
    then show ?thesis using nn nz by (cases num) (simp_all add: startswith_zero_def)
  next
    case (Suc q)
    then show ?thesis by (simp add: startswith_zero_def)
  qed
  have pieces: "hd (str_split_on (CHR '' '') ?s) = code"
    "last (str_split_on (CHR '' '') ?s) = ?rest"
    by (simp_all add: parts)
  have clean: "clean_flight_number (PStr (lead @ ?s @ trail)) =
                 Inr (code @ replicate (p - 1) (CHR ''0'') @ num)"
    unfolding clean_flight_number_stripped[OF strip s_ne] pieces number by simp
  have fmt: "format_flight_number (PStr (lead @ ?s @ trail)) = Inr (code @ num)"
    using strip flight_number_match_spaced[OF len cc nn nd nz]
    by (rule format_flight_number_stripped)
  have same: "(replicate (p - 1) (CHR ''0'') @ num = num) = (p \<le> 1)"
  proof
    assume "replicate (p - 1) (CHR ''0'') @ num = num"
    then have "length (replicate (p - 1) (CHR ''0'') @ num) = length num" by simp
    then show "p \<le> 1" by simp
  next
    assume "p \<le> 1"
    then have "p - 1 = 0" by simp
    then show "replicate (p - 1) (CHR ''0'') @ num = num" by simp
  qed
  show "clean_flight_number
          (PStr (lead @ code @ replicate b (CHR '' '') @ replicate p (CHR ''0'') @ num @ trail)) =
        Inr (code @ replicate (p - 1) (CHR ''0'') @ num)"
    unfolding raw by (rule clean)
  show "format_flight_number
          (PStr (lead @ code @ replicate b (CHR '' '') @ replicate p (CHR ''0'') @ num @ trail)) =
        Inr (code @ num)"
    unfolding raw by (rule fmt)
  show "(clean_flight_number
           (PStr (lead @ code @ replicate b (CHR '' '') @ replicate p (CHR ''0'') @ num @ trail)) =
         format_flight_number
           (PStr (lead @ code @ replicate b (CHR '' '') @ replicate p (CHR ''0'') @ num @ trail)))
        = (p \<le> 1)"
    unfolding raw clean fmt using same by simp
next
  assume h: "is_code_char c1 \<and> is_code_char c2 \<and> is_code_char x \<and> x \<noteq> CHR ''0'' \<and>
             list_all is_decimal tail \<and> (tail = [] \<or> hd tail \<noteq> CHR ''0'') \<and>
             (tail \<noteq> [] \<or> is_decimal x)"
  then have cc: "is_code_char c1" "is_code_char c2" "is_code_char x" and xz: "x \<noteq> CHR ''0''"
    and td: "list_all is_decimal tail" and tz: "tail = [] \<or> hd tail \<noteq> CHR ''0''"
    and nn: "tail \<noteq> [] \<or> is_decimal x"
    by simp_all
  let ?s = "[c1, c2, x] @ tail"
  have raw: "lead @ [c1, c2, x] @ tail @ trail = lead @ ?s @ trail"
    by simp
  have h1: "\<not> is_space (hd ?s)"
    using cc(1) code_char_not_space by simp
  have "is_code_char (last ?s)"
    using cc(3) td decimal_code_char by (cases "tail = []") (simp_all add: list_all_iff)
  then have l1: "\<not> is_space (last ?s)"
    using code_char_not_space by blast
  have strip: "str_strip (lead @ ?s @ trail) = ?s"
    by (rule str_strip_around[OF ws]) (use h1 l1 in simp_all)
  have no_blank: "CHR '' '' \<notin> set ?s"
    using cc td blank_facts(2,3) by (auto simp: list_all_iff)
  have s_ne: "?s \<noteq> []" by simp
  have "\<not> startswith_zero (drop 2 ?s)"
    using xz by (simp add: startswith_zero_def)
  then have "clean_flight_number (PStr (lead @ ?s @ trail)) = Inr ?s"
    unfolding clean_flight_number_stripped[OF strip s_ne] using no_blank by simp
  then show "clean_flight_number (PStr (lead @ [c1, c2, x] @ tail @ trail)) =
               Inr ([c1, c2, x] @ tail)"
    unfolding raw .
  obtain code num where m: "flight_number_match ?s = Some (code, num)"
    and cn: "code @ num = ?s"
    using flight_number_match_unspaced[OF cc xz td tz nn] by blast
  have "format_flight_number (PStr (lead @ ?s @ trail)) = Inr (code @ num)"
    using strip m by (rule format_flight_number_stripped)
  then have "format_flight_number (PStr (lead @ ?s @ trail)) = Inr ?s"
    unfolding cn .
  then show "format_flight_number (PStr (lead @ [c1, c2, x] @ tail @ trail)) =
               Inr ([c1, c2, x] @ tail)"
    unfolding raw .
qed

theorem strategies_agree_witness:
  "list_all is_code_char ''LO'' \<and> list_all is_decimal ''123'' \<and>
   clean_flight_number (PStr ''LO  0123'') = Inr ''LO123'' \<and>
   format_flight_number (PStr ''LO  0123'') = Inr ''LO123'' \<and>
   list_all is_code_char ''W6'' \<and> list_all is_decimal ''3104'' \<and>
   list_all is_space '' '' \<and> list_all is_space [CHR 0x09, CHR 0x0A] \<and>
   clean_flight_number (PStr ('' W6 3104'' @ [CHR 0x09, CHR 0x0A])) = Inr ''W63104'' \<and>
   format_flight_number (PStr ('' W6 3104'' @ [CHR 0x09, CHR 0x0A])) = Inr ''W63104'' \<and>
   clean_flight_number (PStr ''LO 000123'') = Inr ''LO00123'' \<and>
   format_flight_number (PStr ''LO 000123'') = Inr ''LO123'' \<and>
   clean_flight_number (PStr ''LO 000123'') \<noteq> format_flight_number (PStr ''LO 000123'') \<and>
   list_all is_code_char ''FR1'' \<and> list_all is_decimal ''23'' \<and>
   clean_flight_number (PStr ''FR123'') = Inr ''FR123'' \<and>
   format_flight_number (PStr ''FR123'') = Inr ''FR123'' \<and>
   list_all is_code_char ''LOT'' \<and>
   clean_flight_number (PStr ''LOT123'') = Inr ''LOT123'' \<and>
   format_flight_number (PStr ''LOT123'') = Inr ''LOT123'' \<and>
   is_decimal (CHR ''7'') \<and>
   clean_flight_number (PStr ''FR7'') = Inr ''FR7'' \<and>
   format_flight_number (PStr ''FR7'') = Inr ''FR7''"
proof -
  have e: "list_all is_space []" by simp
  have sp: "list_all is_space '' ''" "list_all is_space [CHR 0x09, CHR 0x0A]"
    by code_simp+
  have c: "list_all is_code_char ''LO''" "list_all is_code_char ''W6''"
    "list_all is_code_char ''FR1''" "list_all is_code_char ''LOT''"
    "list_all is_code_char ''FR7''"
    by code_simp+
  have d: "list_all is_decimal ''123''" "list_all is_decimal ''3104''"
    "list_all is_decimal ''23''" "is_decimal (CHR ''7'')"
    by code_simp+
  note first = strategies_agree[OF e e, where code = "''LO''" and b = "Suc (Suc 0)"
      and p = "Suc 0" and num = "''123''" and ?c1.0 = "CHR ''F''" and ?c2.0 = "CHR ''R''"
      and x = "CHR ''1''" and tail = "''23''"]
  have a: "clean_flight_number (PStr ''LO  0123'') = Inr ''LO123'' \<and>
           format_flight_number (PStr ''LO  0123'') = Inr ''LO123''"
    using first[THEN conjunct1] c d by simp
  have f: "clean_flight_number (PStr ''FR123'') = Inr ''FR123'' \<and>
           format_flight_number (PStr ''FR123'') = Inr ''FR123''"
    using first[THEN conjunct2] c d by simp
  note second = strategies_agree[OF sp, where code = "''W6''" and b = "Suc 0"
      and p = 0 and num = "''3104''" and ?c1.0 = "CHR ''L''" and ?c2.0 = "CHR ''O''"
      and x = "CHR ''T''" and tail = "''123''"]
  have w: "clean_flight_number (PStr ('' W6 3104'' @ [CHR 0x09, CHR 0x0A])) = Inr ''W63104'' \<and>
           format_flight_number (PStr ('' W6 3104'' @ [CHR 0x09, CHR 0x0A])) = Inr ''W63104''"
    using second[THEN conjunct1] c d by simp
  note third = strategies_agree[OF e e, where code = "''LO''" and b = "Suc 0"
      and p = "Suc (Suc (Suc 0))" and num = "''123''" and ?c1.0 = "CHR ''L''"
      and ?c2.0 = "CHR ''O''" and x = "CHR ''T''" and tail = "''123''"]
  have z: "clean_flight_number (PStr ''LO 000123'') = Inr ''LO00123'' \<and>
           format_flight_number (PStr ''LO 000123'') = Inr ''LO123'' \<and>
           clean_flight_number (PStr ''LO 000123'') \<noteq> format_flight_number (PStr ''LO 000123'')"
    using third[THEN conjunct1] c d by simp
  have t: "clean_flight_number (PStr ''LOT123'') = Inr ''LOT123'' \<and>
           format_flight_number (PStr ''LOT123'') = Inr ''LOT123''"
    using third[THEN conjunct2] c d by simp
  note fourth = strategies_agree[OF e e, where code = "''LO''" and b = "Suc 0"
      and p = 0 and num = "''123''" and ?c1.0 = "CHR ''F''" and ?c2.0 = "CHR ''R''"
      and x = "CHR ''7''" and tail = "[]"]
  have s: "clean_flight_number (PStr ''FR7'') = Inr ''FR7'' \<and>
           format_flight_number (PStr ''FR7'') = Inr ''FR7''"
    using fourth[THEN conjunct2] c d by simp
  show ?thesis using a f w z t s c d sp by simp
qed

section \<open>Properties of the time fields\<close>

subsection \<open>The token of a status\<close>

lemma split_ws_from_no_space:
  "\<forall>c\<in>set cur. \<not> is_space c \<Longrightarrow> t \<in> set (split_ws_from cur s) \<Longrightarrow> c \<in> set t \<Longrightarrow>
   \<not> is_space c"
  by (induction cur s rule: split_ws_from.induct) (auto split: if_splits)

lemma str_split_no_space: "t \<in> set (str_split s) \<Longrightarrow> c \<in> set t \<Longrightarrow> \<not> is_space c"
  unfolding str_split_def using split_ws_from_no_space[of "[]"] by simp

lemma newline_is_space: "is_space (CHR 0x0A)"
  by code_simp

text \<open>
  On a string without white space the regex and the wording of the specification say
  the same: the newline that \<^verbatim>\<open>$\<close> would let pass cannot be there.
\<close>

lemma time_token_match_strict:
  assumes "\<forall>c\<in>set t. \<not> is_space c"
  shows "time_token_match t = strict_hh_mm t"
proof (cases t)
  case Nil
  then show ?thesis by (simp add: time_token_match_def strict_hh_mm_def)
next
  case (Cons a t1)
  note c1 = this
  show ?thesis
  proof (cases t1)
    case Nil
    with c1 show ?thesis by (simp add: time_token_match_def strict_hh_mm_def)
  next
    case (Cons b t2)
    note c2 = this
    show ?thesis
    proof (cases t2)
      case Nil
      with c1 c2 show ?thesis by (simp add: time_token_match_def strict_hh_mm_def)
    next
      case (Cons c t3)
      note c3 = this
      show ?thesis
      proof (cases t3)
        case Nil
        with c1 c2 c3 show ?thesis by (simp add: time_token_match_def strict_hh_mm_def)
      next
        case (Cons d t4)
        note c4 = this
        show ?thesis
        proof (cases t4)
          case Nil
          with c1 c2 c3 c4 show ?thesis by (simp add: time_token_match_def strict_hh_mm_def)
        next
          case (Cons e rest)
          have "rest \<noteq> [CHR 0x0A]"
            using assms c1 c2 c3 c4 Cons newline_is_space by auto
          then show ?thesis
            using c1 c2 c3 c4 Cons
            by (auto simp: time_token_match_def strict_hh_mm_def at_end_def)
        qed
      qed
    qed
  qed
qed

lemma last_token_match:
  assumes "1 < length (str_split status)"
  shows "time_token_match (last (str_split status)) = strict_hh_mm (last (str_split status))"
proof -
  have "str_split status \<noteq> []" using assms by auto
  then have "last (str_split status) \<in> set (str_split status)" by simp
  then show ?thesis
    using str_split_no_space time_token_match_strict by blast
qed

subsection \<open>Digits\<close>

text \<open>
  The digits of a number below ten thousand, and what \<^verbatim>\<open>%02d\<close> and \<^verbatim>\<open>%04d\<close> make of
  them.
\<close>

lemma digit_char_decimal: "k < 10 \<Longrightarrow> is_decimal (digit_char k)"
  by (simp add: is_decimal_def digit_char_def code_point_def)

lemma decimal_1: "n < 10 \<Longrightarrow> decimal n = [digit_char n]"
  by (subst decimal.simps) simp

lemma decimal_2: "10 \<le> n \<Longrightarrow> n < 100 \<Longrightarrow> decimal n = [digit_char (n div 10), digit_char (n mod 10)]"
  by (subst decimal.simps) (simp add: decimal_1)

lemma decimal_3:
  "100 \<le> n \<Longrightarrow> n < 1000 \<Longrightarrow>
   decimal n = [digit_char (n div 100), digit_char (n div 10 mod 10), digit_char (n mod 10)]"
  by (subst decimal.simps) (simp add: decimal_2 div_mult2_eq[symmetric])

lemma decimal_4:
  "1000 \<le> n \<Longrightarrow> n < 10000 \<Longrightarrow>
   decimal n = [digit_char (n div 1000), digit_char (n div 100 mod 10),
                digit_char (n div 10 mod 10), digit_char (n mod 10)]"
  by (subst decimal.simps) (simp add: decimal_3 div_mult2_eq[symmetric])

lemma zero_is_decimal: "is_decimal (CHR ''0'')"
  by code_simp

lemma replicate_small:
  "replicate 3 c = [c, c, c]" "replicate 2 c = [c, c]"
  by (simp_all add: numeral_3_eq_3 numeral_2_eq_2)

text \<open>The digits written out.\<close>

lemma digit_char_zero: "digit_char 0 = CHR ''0''"
  by code_simp

lemma zero_pad_two_digits:
  assumes "n < 100"
  shows "zero_pad 2 n = two_digits n"
proof (cases "n < 10")
  case True
  then show ?thesis
    by (simp add: zero_pad_def decimal_1 two_digits_def digit_char_zero)
next
  case False
  then show ?thesis
    using assms by (simp add: zero_pad_def decimal_2 two_digits_def)
qed

lemma zero_pad_four_digits:
  assumes "n < 10000"
  shows "zero_pad 4 n = four_digits n"
proof -
  consider "n < 10" | "10 \<le> n" "n < 100" | "100 \<le> n" "n < 1000" | "1000 \<le> n"
    by linarith
  then show ?thesis
  proof cases
    case 1
    then show ?thesis
      by (simp add: zero_pad_def decimal_1 replicate_small four_digits_def digit_char_zero)
  next
    case 2
    then show ?thesis
      by (simp add: zero_pad_def decimal_2 replicate_small four_digits_def digit_char_zero)
  next
    case 3
    then show ?thesis
      by (simp add: zero_pad_def decimal_3 four_digits_def digit_char_zero
            div_mult2_eq[symmetric])
  next
    case 4
    then show ?thesis
      using assms by (simp add: zero_pad_def decimal_4 four_digits_def)
  qed
qed

lemma date_isoformat_digits:
  assumes "valid_date d"
  shows "date_isoformat d =
           four_digits (year d) @ ''-'' @ two_digits (month d) @ ''-'' @ two_digits (day d)"
proof -
  have "days_in_month (year d) (month d) \<le> 31"
    by (simp add: days_in_month_def)
  then have "year d < 10000" and "month d < 100" and "day d < 100"
    using assms by (simp_all add: valid_date_def)
  then show ?thesis
    by (simp add: date_isoformat_def zero_pad_two_digits zero_pad_four_digits)
qed

lemma format_offset_digits:
  assumes "\<bar>off\<bar> < 1440"
  shows "format_offset off =
           (if off < 0 then ''-'' else ''+'') @ two_digits (nat \<bar>off\<bar> div 60) @ '':'' @
           two_digits (nat \<bar>off\<bar> mod 60)"
proof -
  have "nat \<bar>off\<bar> div 60 < 100" and "nat \<bar>off\<bar> mod 60 < 100"
    using assms by simp_all
  then show ?thesis
    by (simp add: format_offset_def Let_def zero_pad_two_digits)
qed

text \<open>A decimal digit is the character of its value, and no sign, mark or blank.\<close>

lemma decimal_digit_of:
  assumes "is_decimal c"
  shows "digit_char (digit_of c) = c" and "digit_of c < 10"
    and "digit_value c = int (digit_of c)"
proof -
  have r: "48 \<le> (of_char c :: nat)" "(of_char c :: nat) \<le> 57"
    using assms by (simp_all add: is_decimal_def code_point_def Let_def)
  show "digit_char (digit_of c) = c"
    using r by (simp add: digit_char_def digit_of_def code_point_def)
  show "digit_of c < 10"
    using r by (simp add: digit_of_def code_point_def)
  show "digit_value c = int (digit_of c)"
    using r by (simp add: digit_value_def digit_of_def code_point_def)
qed

lemma decimal_plain:
  assumes "is_decimal c"
  shows "\<not> int_space c" and "c \<noteq> CHR ''+''" and "c \<noteq> CHR ''-''" and "c \<noteq> CHR ''_''"
    and "c \<noteq> CHR '':''"
  using assms by (auto simp: is_decimal_def int_space_def code_point_def Let_def)

lemma two_digits_of:
  assumes "is_decimal a" and "is_decimal b"
  shows "two_digits (10 * digit_of a + digit_of b) = [a, b]"
  using decimal_digit_of[OF assms(1)] decimal_digit_of[OF assms(2)]
  by (simp add: two_digits_def)

lemma py_int_two_digits:
  assumes "is_decimal a" and "is_decimal b"
  shows "py_int [a, b] = Some (int (10 * digit_of a + digit_of b))"
  using assms decimal_plain[OF assms(1)] decimal_plain[OF assms(2)]
    decimal_digit_of(3)[OF assms(1)] decimal_digit_of(3)[OF assms(2)]
  by (simp add: py_int_def digits_value_def)

lemma read_two_ints:
  assumes "map py_int (str_split_on (CHR '':'') s) = [Some (int h), Some (int m)]"
  shows "read_flight_time (PStr s) d tz =
           (if h < 24 \<and> m < 60 then localize_isoformat tz d h m else Inl ValueError)"
  using assms by (auto simp: read_flight_time_def)

lemma strict_hh_mm_token:
  assumes "strict_hh_mm t"
  obtains a b c e where "t = [a, b, CHR '':'', c, e]"
    "is_decimal a" "is_decimal b" "is_decimal c" "is_decimal e"
proof -
  have "length t = 5" using assms by (simp add: strict_hh_mm_def)
  then obtain a b x c e where t: "t = [a, b, x, c, e]"
    by (auto simp: eval_nat_numeral length_Suc_conv)
  with assms have "x = CHR '':''" "is_decimal a" "is_decimal b" "is_decimal c" "is_decimal e"
    by (simp_all add: strict_hh_mm_def)
  with t show ?thesis by (auto intro: that)
qed

text \<open>
  On a token \<^verbatim>\<open>HH:MM\<close> the body of \<^verbatim>\<open>parse_flight_time\<close> gives the instant of the
  specification, and raises where there is none.
\<close>

lemma read_flight_time_token:
  assumes "strict_hh_mm t" and "valid_date d"
  shows "read_flight_time (PStr t) d tz =
           (case token_instant t d tz of None \<Rightarrow> Inl ValueError | Some x \<Rightarrow> Inr x)"
proof -
  obtain a b c e where t: "t = [a, b, CHR '':'', c, e]"
    and da: "is_decimal a" and db: "is_decimal b" and dc: "is_decimal c" and de: "is_decimal e"
    using assms(1) by (rule strict_hh_mm_token)
  let ?h = "10 * digit_of a + digit_of b"
  let ?m = "10 * digit_of c + digit_of e"
  have h: "hh_mm_hour t = ?h" and m: "hh_mm_minute t = ?m"
    by (simp_all add: t hh_mm_hour_def hh_mm_minute_def)
  have pieces: "str_split_on (CHR '':'') t = [[a, b], [c, e]]"
    using decimal_plain(5)[OF da] decimal_plain(5)[OF db] decimal_plain(5)[OF dc]
      decimal_plain(5)[OF de]
    by (simp add: t)
  have ints: "map py_int [[a, b], [c, e]] = [Some (int ?h), Some (int ?m)]"
    by (simp add: py_int_two_digits da db dc de)
  have read: "read_flight_time (PStr t) d tz =
                (if ?h < 24 \<and> ?m < 60 then localize_isoformat tz d ?h ?m else Inl ValueError)"
    by (rule read_two_ints) (simp only: pieces ints)
  have clock: "zero_pad 2 ?h @ '':'' @ zero_pad 2 ?m = t" if "?h < 24" and "?m < 60"
  proof -
    have "zero_pad 2 ?h = [a, b]"
      using that(1) two_digits_of[OF da db] by (simp add: zero_pad_two_digits)
    moreover have "zero_pad 2 ?m = [c, e]"
      using that(2) two_digits_of[OF dc de] by (simp add: zero_pad_two_digits)
    ultimately show ?thesis by (simp add: t)
  qed
  have render: "date_isoformat d @ ''T'' @ zero_pad 2 ?h @ '':'' @ zero_pad 2 ?m @ '':00.000'' @
                  format_offset off = iso_instant d t off"
    if "?h < 24" and "?m < 60" and "\<bar>off\<bar> < 1440" for off
  proof -
    have "date_isoformat d @ ''T'' @ (zero_pad 2 ?h @ '':'' @ zero_pad 2 ?m) @ '':00.000'' @
            format_offset off = iso_instant d t off"
      unfolding clock[OF that(1,2)] date_isoformat_digits[OF assms(2)]
        format_offset_digits[OF that(3)] iso_instant_def
      by simp
    then show ?thesis by simp
  qed
  show ?thesis
  proof (cases "?h < 24 \<and> ?m < 60")
    case False
    then show ?thesis
      using read by (auto simp: token_instant_def h m)
  next
    case True
    show ?thesis
    proof (cases "tz d ?h ?m")
      case None
      then show ?thesis
        using True read by (simp add: token_instant_def h m localize_isoformat_def)
    next
      case (Some off)
      show ?thesis
      proof (cases "\<bar>off\<bar> < 1440")
        case False
        then show ?thesis
          using True read Some by (simp add: token_instant_def h m localize_isoformat_def)
      next
        case inside: True
        have "localize_isoformat tz d ?h ?m = Inr (iso_instant d t off)"
          using True Some inside render[of off] by (simp add: localize_isoformat_def)
        then show ?thesis
          using True read Some inside by (simp add: token_instant_def h m)
      qed
    qed
  qed
qed

lemma strict_hh_mm_truthy: "strict_hh_mm t \<Longrightarrow> truthy (PStr t)"
  by (auto simp: strict_hh_mm_def)

lemma parse_flight_time_token:
  assumes "strict_hh_mm t" and "valid_date d"
  shows "parse_flight_time_1905 (PStr t) d tz =
           (case token_instant t d tz of None \<Rightarrow> ''N/A'' | Some x \<Rightarrow> x)"
    and "parse_flight_time_v3 (PStr t) d tz = token_instant t d tz"
  using strict_hh_mm_truthy[OF assms(1)] read_flight_time_token[OF assms, of tz]
  by (simp_all add: parse_flight_time_1905_def parse_flight_time_v3_def split: option.splits)

subsection \<open>The times read from the status\<close>

text \<open>
  C5. For every status, every zone and every date of the calendar, in both scripts: when
  the status has at least two tokens and the last one is two digits, a colon and two
  digits, the estimated and the actual time are both the instant of that token on the date
  of the query in the zone, as \<^const>\<open>token_instant\<close> writes it out (the date, \<^verbatim>\<open>T\<close>, the
  token, \<^verbatim>\<open>:00.000\<close> and the offset of the zone), and \<^verbatim>\<open>"N/A"\<close> when the token names no
  time of day or the zone gives no offset; otherwise both are \<^verbatim>\<open>"N/A"\<close>. The scheduled
  time is the \<^verbatim>\<open>scheduled_time\<close> field parsed against the date of the query, whatever the
  status is; for a field of two digits, a colon and two digits it is the instant of the
  field on that date in the zone (in \<^verbatim>\<open>19_05_flight.py\<close> \<^verbatim>\<open>"N/A"\<close>, and in
  \<^verbatim>\<open>katowise_v3.py\<close> \<^verbatim>\<open>None\<close>, where there is no such instant).
\<close>

theorem extract_times_status_token:
  assumes "valid_date query_date"
  shows "(1 < length (str_split status) \<and> strict_hh_mm (last (str_split status)) \<longrightarrow>
            snd (extract_times_1905 status scheduled_time tz query_date) =
              (case token_instant (last (str_split status)) query_date tz of
                 None \<Rightarrow> (''N/A'', ''N/A'') | Some x \<Rightarrow> (x, x)) \<and>
            snd (extract_times_v3 status scheduled_time tz query_date) =
              (case token_instant (last (str_split status)) query_date tz of
                 None \<Rightarrow> (''N/A'', ''N/A'') | Some x \<Rightarrow> (x, x))) \<and>
         (\<not> (1 < length (str_split status) \<and> strict_hh_mm (last (str_split status))) \<longrightarrow>
            snd (extract_times_1905 status scheduled_time tz query_date) = (''N/A'', ''N/A'') \<and>
            snd (extract_times_v3 status scheduled_time tz query_date) = (''N/A'', ''N/A'')) \<and>
         fst (extract_times_1905 status scheduled_time tz query_date) =
           parse_flight_time_1905 scheduled_time query_date tz \<and>
         fst (extract_times_v3 status scheduled_time tz query_date) =
           parse_flight_time_v3 scheduled_time query_date tz \<and>
         (strict_hh_mm s \<longrightarrow>
            fst (extract_times_1905 status (PStr s) tz query_date) =
              (case token_instant s query_date tz of None \<Rightarrow> ''N/A'' | Some x \<Rightarrow> x) \<and>
            fst (extract_times_v3 status (PStr s) tz query_date) = token_instant s query_date tz)"
proof -
  have sched: "fst (extract_times_1905 status v tz query_date) =
                 parse_flight_time_1905 v query_date tz"
    "fst (extract_times_v3 status v tz query_date) = parse_flight_time_v3 v query_date tz" for v
    by (simp_all add: extract_times_1905_def extract_times_v3_def Let_def split: prod.splits)
  have field: "strict_hh_mm s \<longrightarrow>
            fst (extract_times_1905 status (PStr s) tz query_date) =
              (case token_instant s query_date tz of None \<Rightarrow> ''N/A'' | Some x \<Rightarrow> x) \<and>
            fst (extract_times_v3 status (PStr s) tz query_date) = token_instant s query_date tz"
    using parse_flight_time_token[OF _ assms, of s tz] by (simp add: sched)
  show ?thesis
  proof (cases "1 < length (str_split status) \<and> strict_hh_mm (last (str_split status))")
    case True
    then have tm: "time_token_match (last (str_split status))"
      using last_token_match by simp
    have "snd (extract_times_1905 status scheduled_time tz query_date) =
            (case token_instant (last (str_split status)) query_date tz of
               None \<Rightarrow> (''N/A'', ''N/A'') | Some x \<Rightarrow> (x, x))"
      using True tm parse_flight_time_token(1)[OF _ assms, of "last (str_split status)" tz]
      by (simp add: extract_times_1905_def Let_def split: option.splits)
    moreover have "snd (extract_times_v3 status scheduled_time tz query_date) =
            (case token_instant (last (str_split status)) query_date tz of
               None \<Rightarrow> (''N/A'', ''N/A'') | Some x \<Rightarrow> (x, x))"
      using True tm parse_flight_time_token(2)[OF _ assms, of "last (str_split status)" tz]
      by (simp add: extract_times_v3_def Let_def split: option.splits)
    ultimately show ?thesis
      using True sched field by simp
  next
    case False
    have "snd (extract_times_1905 status scheduled_time tz query_date) = (''N/A'', ''N/A'') \<and>
          snd (extract_times_v3 status scheduled_time tz query_date) = (''N/A'', ''N/A'')"
    proof (cases "1 < length (str_split status)")
      case True
      then have "\<not> time_token_match (last (str_split status))"
        using False last_token_match by simp
      then show ?thesis
        by (simp add: extract_times_1905_def extract_times_v3_def Let_def)
    next
      case False
      then show ?thesis
        by (simp add: extract_times_1905_def extract_times_v3_def Let_def)
    qed
    then show ?thesis
      using False sched field by blast
  qed
qed

theorem extract_times_status_token_witness:
  "valid_date \<lparr>year = 2025, month = 5, day = 19\<rparr> \<and>
   (1 < length (str_split ''Landed 14:05'') \<and> strict_hh_mm (last (str_split ''Landed 14:05''))) \<and>
   strict_hh_mm ''10:30'' \<and>
   extract_times_1905 ''Landed 14:05'' (PStr ''10:30'') (\<lambda>d h m. Some 120)
       \<lparr>year = 2025, month = 5, day = 19\<rparr> =
     (''2025-05-19T10:30:00.000+02:00'', ''2025-05-19T14:05:00.000+02:00'',
      ''2025-05-19T14:05:00.000+02:00'') \<and>
   valid_date \<lparr>year = 2024, month = 2, day = 29\<rparr> \<and>
   (1 < length (str_split ''Delayed until 07:45'') \<and>
    strict_hh_mm (last (str_split ''Delayed until 07:45''))) \<and>
   strict_hh_mm ''23:59'' \<and>
   extract_times_v3 ''Delayed until 07:45'' (PStr ''23:59'') (\<lambda>d h m. Some (- 300))
       \<lparr>year = 2024, month = 2, day = 29\<rparr> =
     (Some ''2024-02-29T23:59:00.000-05:00'', ''2024-02-29T07:45:00.000-05:00'',
      ''2024-02-29T07:45:00.000-05:00'') \<and>
   \<not> (1 < length (str_split ''Landed'') \<and> strict_hh_mm (last (str_split ''Landed''))) \<and>
   extract_times_1905 ''Landed'' (PStr ''10:30'') (\<lambda>d h m. Some 120)
       \<lparr>year = 2025, month = 5, day = 19\<rparr> =
     (''2025-05-19T10:30:00.000+02:00'', ''N/A'', ''N/A'') \<and>
   (1 < length (str_split ''Gate 25:99'') \<and> strict_hh_mm (last (str_split ''Gate 25:99''))) \<and>
   extract_times_1905 ''Gate 25:99'' (PStr ''10:30'') (\<lambda>d h m. Some 120)
       \<lparr>year = 2025, month = 5, day = 19\<rparr> =
     (''2025-05-19T10:30:00.000+02:00'', ''N/A'', ''N/A'')"
proof -
  let ?tz = "(\<lambda>d h m. Some 120) :: tzinfo"
  let ?west = "(\<lambda>d h m. Some (- 300)) :: tzinfo"
  let ?day = "\<lparr>year = 2025, month = 5, day = 19\<rparr>"
  let ?leap = "\<lparr>year = 2024, month = 2, day = 29\<rparr>"
  have v: "valid_date ?day" and w: "valid_date ?leap"
    by (simp_all add: valid_date_def days_in_month_def is_leap_def)
  have c1: "1 < length (str_split ''Landed 14:05'') \<and>
            strict_hh_mm (last (str_split ''Landed 14:05''))"
    and c2: "1 < length (str_split ''Delayed until 07:45'') \<and>
             strict_hh_mm (last (str_split ''Delayed until 07:45''))"
    and c3: "\<not> (1 < length (str_split ''Landed'') \<and> strict_hh_mm (last (str_split ''Landed'')))"
    and c4: "1 < length (str_split ''Gate 25:99'') \<and>
             strict_hh_mm (last (str_split ''Gate 25:99''))"
    and s1: "strict_hh_mm ''10:30''" and s2: "strict_hh_mm ''23:59''"
    by code_simp+
  have l1: "last (str_split ''Landed 14:05'') = ''14:05''"
    and l2: "last (str_split ''Delayed until 07:45'') = ''07:45''"
    and l4: "last (str_split ''Gate 25:99'') = ''25:99''"
    by code_simp+
  have t1: "token_instant ''14:05'' ?day ?tz = Some ''2025-05-19T14:05:00.000+02:00''"
    and t2: "token_instant ''10:30'' ?day ?tz = Some ''2025-05-19T10:30:00.000+02:00''"
    and t3: "token_instant ''07:45'' ?leap ?west = Some ''2024-02-29T07:45:00.000-05:00''"
    and t4: "token_instant ''23:59'' ?leap ?west = Some ''2024-02-29T23:59:00.000-05:00''"
    and t5: "token_instant ''25:99'' ?day ?tz = None"
    by code_simp+
  note landed = extract_times_status_token[OF v, where status = "''Landed 14:05''"
      and scheduled_time = "PStr ''10:30''" and tz = ?tz and s = "''10:30''"]
  have a1: "snd (extract_times_1905 ''Landed 14:05'' (PStr ''10:30'') ?tz ?day) =
              (case token_instant (last (str_split ''Landed 14:05'')) ?day ?tz of
                 None \<Rightarrow> (''N/A'', ''N/A'') | Some x \<Rightarrow> (x, x))"
    using landed c1 by blast
  have a2: "fst (extract_times_1905 ''Landed 14:05'' (PStr ''10:30'') ?tz ?day) =
              (case token_instant ''10:30'' ?day ?tz of None \<Rightarrow> ''N/A'' | Some x \<Rightarrow> x)"
    using landed s1 by blast
  have a: "extract_times_1905 ''Landed 14:05'' (PStr ''10:30'') ?tz ?day =
             (''2025-05-19T10:30:00.000+02:00'', ''2025-05-19T14:05:00.000+02:00'',
              ''2025-05-19T14:05:00.000+02:00'')"
    using a1 a2 by (simp add: l1 t1 t2 prod_eq_iff)
  note delayed = extract_times_status_token[OF w, where status = "''Delayed until 07:45''"
      and scheduled_time = "PStr ''23:59''" and tz = ?west and s = "''23:59''"]
  have b1: "snd (extract_times_v3 ''Delayed until 07:45'' (PStr ''23:59'') ?west ?leap) =
              (case token_instant (last (str_split ''Delayed until 07:45'')) ?leap ?west of
                 None \<Rightarrow> (''N/A'', ''N/A'') | Some x \<Rightarrow> (x, x))"
    using delayed c2 by blast
  have b2: "fst (extract_times_v3 ''Delayed until 07:45'' (PStr ''23:59'') ?west ?leap) =
              token_instant ''23:59'' ?leap ?west"
    using delayed s2 by blast
  have b: "extract_times_v3 ''Delayed until 07:45'' (PStr ''23:59'') ?west ?leap =
             (Some ''2024-02-29T23:59:00.000-05:00'', ''2024-02-29T07:45:00.000-05:00'',
              ''2024-02-29T07:45:00.000-05:00'')"
    using b1 b2 by (simp add: l2 t3 t4 prod_eq_iff)
  note plain = extract_times_status_token[OF v, where status = "''Landed''"
      and scheduled_time = "PStr ''10:30''" and tz = ?tz and s = "''10:30''"]
  have c5: "snd (extract_times_1905 ''Landed'' (PStr ''10:30'') ?tz ?day) = (''N/A'', ''N/A'')"
    using plain c3 by blast
  have c6: "fst (extract_times_1905 ''Landed'' (PStr ''10:30'') ?tz ?day) =
              (case token_instant ''10:30'' ?day ?tz of None \<Rightarrow> ''N/A'' | Some x \<Rightarrow> x)"
    using plain s1 by blast
  have c: "extract_times_1905 ''Landed'' (PStr ''10:30'') ?tz ?day =
             (''2025-05-19T10:30:00.000+02:00'', ''N/A'', ''N/A'')"
    using c5 c6 by (simp add: t2 prod_eq_iff)
  note gate = extract_times_status_token[OF v, where status = "''Gate 25:99''"
      and scheduled_time = "PStr ''10:30''" and tz = ?tz and s = "''10:30''"]
  have d1: "snd (extract_times_1905 ''Gate 25:99'' (PStr ''10:30'') ?tz ?day) =
              (case token_instant (last (str_split ''Gate 25:99'')) ?day ?tz of
                 None \<Rightarrow> (''N/A'', ''N/A'') | Some x \<Rightarrow> (x, x))"
    using gate c4 by blast
  have d2: "fst (extract_times_1905 ''Gate 25:99'' (PStr ''10:30'') ?tz ?day) =
              (case token_instant ''10:30'' ?day ?tz of None \<Rightarrow> ''N/A'' | Some x \<Rightarrow> x)"
    using gate s1 by blast
  have d: "extract_times_1905 ''Gate 25:99'' (PStr ''10:30'') ?tz ?day =
             (''2025-05-19T10:30:00.000+02:00'', ''N/A'', ''N/A'')"
    using d1 d2 by (simp add: l4 t5 t2 prod_eq_iff)
  show ?thesis using v w c1 c2 c3 c4 s1 s2 a b c d by blast
qed

subsection \<open>A scheduled time that is missing or malformed\<close>

text \<open>
  C1. The specification has every time field hold a timestamp or \<^verbatim>\<open>"N/A"\<close>, never
  \<^verbatim>\<open>None\<close>. \<^verbatim>\<open>process_flight\<close> of \<^verbatim>\<open>katowise_v3.py\<close>, on an arrival whose entry has no
  \<^verbatim>\<open>scheduled_time\<close>, stores \<^verbatim>\<open>None\<close> as the scheduled arrival time.
\<close>

theorem scheduled_time_none_v3:
  "process_flight_v3
     (PDict [(''flight_number'', PStr ''FR 0900''), (''status'', PStr ''Landed 14:05'')]) 2
     (\<lambda>d h m. Some 120) \<lparr>year = 2025, month = 5, day = 19\<rparr> =
   Inr [(''flight_number'', PStr ''FR900''), (''callsign'', PStr ''FR900''),
        (''airline'', PStr []), (''departure_airport'', PStr []),
        (''scheduled_arrival_time'', PNone),
        (''estimated_arrival_time'', PStr ''2025-05-19T14:05:00.000+02:00''),
        (''actual_arrival_time'', PStr ''2025-05-19T14:05:00.000+02:00''),
        (''status'', PStr ''Landed 14:05''), (''terminal'', PStr [])]"
  by code_simp

text \<open>
  C6. The specification has a malformed time string end as \<^verbatim>\<open>"N/A"\<close> in its field.
  \<^verbatim>\<open>extract_times\<close> of \<^verbatim>\<open>katowise_v3.py\<close>, given the scheduled time \<^verbatim>\<open>25:99\<close>, returns
  \<^verbatim>\<open>None\<close> for it; \<^verbatim>\<open>extract_times\<close> of \<^verbatim>\<open>19_05_flight.py\<close> returns \<^verbatim>\<open>"N/A"\<close>.
\<close>

theorem malformed_scheduled_time_v3:
  "extract_times_v3 ''Landed'' (PStr ''25:99'') (\<lambda>d h m. Some 120)
     \<lparr>year = 2025, month = 5, day = 19\<rparr> = (None, ''N/A'', ''N/A'') \<and>
   extract_times_1905 ''Landed'' (PStr ''25:99'') (\<lambda>d h m. Some 120)
     \<lparr>year = 2025, month = 5, day = 19\<rparr> = (''N/A'', ''N/A'', ''N/A'')"
  by code_simp

section \<open>Properties of the date window\<close>

lemma date_le_refl: "date_le d d"
  by (simp add: date_le_def)

lemma date_le_next_day: "date_le d (next_day d)"
  by (simp add: date_le_def next_day_def)

lemma not_date_le_next_day: "\<not> date_le (next_day d) d"
  by (simp add: date_le_def next_day_def)

lemma next_prev_day:
  assumes "valid_date d" and "d \<noteq> date_min"
  shows "next_day (prev_day d) = d"
proof (cases "1 < day d")
  case True
  with assms(1) show ?thesis
    by (auto simp: next_day_def prev_day_def valid_date_def)
next
  case False
  then have d1: "day d = 1" using assms(1) by (simp add: valid_date_def)
  show ?thesis
  proof (cases "1 < month d")
    case True
    with d1 assms(1) show ?thesis
      by (auto simp: next_day_def prev_day_def valid_date_def)
  next
    case False
    then have m1: "month d = 1" using assms(1) by (simp add: valid_date_def)
    with d1 assms show ?thesis
      by (auto simp: next_day_def prev_day_def valid_date_def days_in_month_def date_min_def)
  qed
qed

lemma prev_day_not_max:
  assumes "valid_date d" and "d \<noteq> date_min"
  shows "prev_day d \<noteq> date_max"
proof
  assume "prev_day d = date_max"
  then have "next_day (prev_day d) = next_day date_max" by simp
  then have "d = next_day date_max" using next_prev_day[OF assms] by simp
  then have "year d = 10000" by (simp add: next_day_def date_max_def days_in_month_def)
  with assms(1) show False by (simp add: valid_date_def)
qed

text \<open>The loop from a day to the day after it runs twice.\<close>

lemma date_loop_two_days:
  assumes "a \<noteq> date_max" and "next_day a \<noteq> date_max"
  shows "date_loop a (next_day a) dates = Inr (insert (next_day a) (insert a dates))"
proof -
  have "date_loop a (next_day a) dates = date_loop (next_day a) (next_day a) (insert a dates)"
    using assms(1) by (subst date_loop.simps) (simp add: date_le_next_day)
  also have "\<dots> = date_loop (next_day (next_day a)) (next_day a)
                     (insert (next_day a) (insert a dates))"
    using assms(2) by (subst date_loop.simps) (simp add: date_le_refl)
  also have "\<dots> = Inr (insert (next_day a) (insert a dates))"
    by (subst date_loop.simps) (simp add: not_date_le_next_day)
  finally show ?thesis .
qed

text \<open>It stops with an error when it reaches the last day of the calendar.\<close>

lemma date_loop_last_day:
  assumes "a \<noteq> date_max" and "next_day a = date_max"
  shows "date_loop a (next_day a) dates = Inl OverflowError"
proof -
  have "date_loop a (next_day a) dates = date_loop (next_day a) (next_day a) (insert a dates)"
    using assms(1) by (subst date_loop.simps) (simp add: date_le_next_day)
  also have "\<dots> = Inl OverflowError"
    using assms(2) by (subst date_loop.simps) (simp add: date_le_refl)
  finally show ?thesis .
qed

text \<open>
  C7, as stated. The specification has the set hold the dates of \<^verbatim>\<open>now - 12h\<close> and of
  \<^verbatim>\<open>now + 12h\<close> for every instant \<^verbatim>\<open>now\<close>. At five in the morning of 9999-12-31 both
  ends of the window exist, and \<^verbatim>\<open>calculate_date_window\<close> returns no set: once the last
  day is in the set the loop steps to the day after it, which is not in the calendar, and
  \<^verbatim>\<open>OverflowError\<close> is raised.
\<close>

theorem date_window_overflow_last_day:
  "minus_12h \<lparr>date_part = \<lparr>year = 9999, month = 12, day = 31\<rparr>, hour = 5, minute = 0,
                second = 0, microsecond = 0\<rparr> =
     Inr \<lparr>date_part = \<lparr>year = 9999, month = 12, day = 30\<rparr>, hour = 17, minute = 0,
           second = 0, microsecond = 0\<rparr> \<and>
   plus_12h \<lparr>date_part = \<lparr>year = 9999, month = 12, day = 31\<rparr>, hour = 5, minute = 0,
               second = 0, microsecond = 0\<rparr> =
     Inr \<lparr>date_part = \<lparr>year = 9999, month = 12, day = 31\<rparr>, hour = 17, minute = 0,
           second = 0, microsecond = 0\<rparr> \<and>
   calculate_date_window
     \<lparr>date_part = \<lparr>year = 9999, month = 12, day = 31\<rparr>, hour = 5, minute = 0, second = 0,
        microsecond = 0\<rparr> = Inl OverflowError"
proof -
  let ?now = "\<lparr>date_part = \<lparr>year = 9999, month = 12, day = 31\<rparr>, hour = 5, minute = 0,
                second = 0, microsecond = 0\<rparr>"
  let ?eve = "\<lparr>year = 9999, month = 12, day = 30\<rparr>"
  have m: "minus_12h ?now =
             Inr \<lparr>date_part = ?eve, hour = 17, minute = 0, second = 0, microsecond = 0\<rparr>"
    by (simp add: minus_12h_def date_min_def prev_day_def)
  have p: "plus_12h ?now =
             Inr \<lparr>date_part = \<lparr>year = 9999, month = 12, day = 31\<rparr>, hour = 17, minute = 0,
                   second = 0, microsecond = 0\<rparr>"
    by (simp add: plus_12h_def)
  have n: "next_day ?eve = date_max"
    by (simp add: next_day_def days_in_month_def date_max_def)
  have e: "?eve \<noteq> date_max"
    by (simp add: date_max_def)
  have "date_loop ?eve (next_day ?eve) {} = Inl OverflowError"
    using e n by (rule date_loop_last_day)
  then have "calculate_date_window ?now = Inl OverflowError"
    by (simp add: calculate_date_window_def m p n date_max_def)
  then show ?thesis using m p by simp
qed

text \<open>
  C7, amended. For every instant of the calendar the hour and the date of \<^verbatim>\<open>now\<close> decide
  what \<^verbatim>\<open>calculate_date_window\<close> does. From noon on, \<^verbatim>\<open>now - 12h\<close> falls on the day of
  \<^verbatim>\<open>now\<close> and \<^verbatim>\<open>now + 12h\<close> on the day after: the set is exactly these two dates,
  unless one of them is 9999-12-31, and then \<^verbatim>\<open>OverflowError\<close> is raised. Before noon,
  \<^verbatim>\<open>now - 12h\<close> falls on the day before \<^verbatim>\<open>now\<close> and \<^verbatim>\<open>now + 12h\<close> on the day of
  \<^verbatim>\<open>now\<close>: the set is exactly these two dates, unless \<^verbatim>\<open>now\<close> is on 0001-01-01 or on
  9999-12-31, and then \<^verbatim>\<open>OverflowError\<close> is raised. So a set that is returned holds the
  dates of both ends of the window and no other date.
\<close>

theorem calculate_date_window_exact:
  assumes "valid_date (date_part now)"
  shows "calculate_date_window now =
     (if 12 \<le> hour now
      then (if date_part now = date_max \<or> next_day (date_part now) = date_max
            then Inl OverflowError
            else Inr {date_part now, next_day (date_part now)})
      else (if date_part now = date_min \<or> date_part now = date_max
            then Inl OverflowError
            else Inr {prev_day (date_part now), date_part now}))"
proof (cases "12 \<le> hour now")
  case True
  note late = this
  show ?thesis
  proof (cases "date_part now = date_max")
    case True
    with late show ?thesis
      by (simp add: calculate_date_window_def minus_12h_def plus_12h_def)
  next
    case False
    note nm = this
    have w: "calculate_date_window now = date_loop (date_part now) (next_day (date_part now)) {}"
      using late nm by (simp add: calculate_date_window_def minus_12h_def plus_12h_def)
    show ?thesis
    proof (cases "next_day (date_part now) = date_max")
      case True
      then show ?thesis
        using late nm w date_loop_last_day[OF nm True] by simp
    next
      case False
      then show ?thesis
        using late nm w date_loop_two_days[OF nm False] by (simp add: insert_commute)
    qed
  qed
next
  case False
  note early = this
  show ?thesis
  proof (cases "date_part now = date_min")
    case True
    with early show ?thesis
      by (simp add: calculate_date_window_def minus_12h_def plus_12h_def)
  next
    case False
    note nmin = this
    have np: "next_day (prev_day (date_part now)) = date_part now"
      using next_prev_day[OF assms nmin] .
    have pm: "prev_day (date_part now) \<noteq> date_max"
      using prev_day_not_max[OF assms nmin] .
    have w: "calculate_date_window now =
               date_loop (prev_day (date_part now)) (next_day (prev_day (date_part now))) {}"
      using early nmin np by (simp add: calculate_date_window_def minus_12h_def plus_12h_def)
    show ?thesis
    proof (cases "date_part now = date_max")
      case True
      then have "next_day (prev_day (date_part now)) = date_max" using np by simp
      then show ?thesis
        using early nmin True w date_loop_last_day[OF pm] by simp
    next
      case False
      then have "next_day (prev_day (date_part now)) \<noteq> date_max" using np by simp
      then show ?thesis
        using early nmin False w date_loop_two_days[OF pm] np by (simp add: insert_commute)
    qed
  qed
qed

theorem calculate_date_window_exact_witness:
  "valid_date \<lparr>year = 2025, month = 5, day = 19\<rparr> \<and>
   calculate_date_window
     \<lparr>date_part = \<lparr>year = 2025, month = 5, day = 19\<rparr>, hour = 13, minute = 5, second = 1,
        microsecond = 7\<rparr> =
     Inr {\<lparr>year = 2025, month = 5, day = 19\<rparr>, \<lparr>year = 2025, month = 5, day = 20\<rparr>} \<and>
   valid_date \<lparr>year = 2024, month = 3, day = 1\<rparr> \<and>
   calculate_date_window
     \<lparr>date_part = \<lparr>year = 2024, month = 3, day = 1\<rparr>, hour = 11, minute = 59, second = 59,
        microsecond = 999999\<rparr> =
     Inr {\<lparr>year = 2024, month = 2, day = 29\<rparr>, \<lparr>year = 2024, month = 3, day = 1\<rparr>} \<and>
   valid_date \<lparr>year = 2025, month = 12, day = 31\<rparr> \<and>
   calculate_date_window
     \<lparr>date_part = \<lparr>year = 2025, month = 12, day = 31\<rparr>, hour = 12, minute = 0, second = 0,
        microsecond = 0\<rparr> =
     Inr {\<lparr>year = 2025, month = 12, day = 31\<rparr>, \<lparr>year = 2026, month = 1, day = 1\<rparr>} \<and>
   valid_date \<lparr>year = 1, month = 1, day = 1\<rparr> \<and>
   calculate_date_window
     \<lparr>date_part = \<lparr>year = 1, month = 1, day = 1\<rparr>, hour = 3, minute = 0, second = 0,
        microsecond = 0\<rparr> = Inl OverflowError"
proof -
  let ?a = "\<lparr>date_part = \<lparr>year = 2025, month = 5, day = 19\<rparr>, hour = 13, minute = 5,
              second = 1, microsecond = 7\<rparr>"
  let ?b = "\<lparr>date_part = \<lparr>year = 2024, month = 3, day = 1\<rparr>, hour = 11, minute = 59,
              second = 59, microsecond = 999999\<rparr>"
  let ?c = "\<lparr>date_part = \<lparr>year = 2025, month = 12, day = 31\<rparr>, hour = 12, minute = 0,
              second = 0, microsecond = 0\<rparr>"
  let ?d = "\<lparr>date_part = \<lparr>year = 1, month = 1, day = 1\<rparr>, hour = 3, minute = 0,
              second = 0, microsecond = 0\<rparr>"
  have va: "valid_date (date_part ?a)"
    by (simp add: valid_date_def days_in_month_def)
  have vb: "valid_date (date_part ?b)"
    by (simp add: valid_date_def days_in_month_def)
  have vc: "valid_date (date_part ?c)"
    by (simp add: valid_date_def days_in_month_def)
  have vd: "valid_date (date_part ?d)"
    by (simp add: valid_date_def days_in_month_def)
  have na: "next_day \<lparr>year = 2025, month = 5, day = 19\<rparr> = \<lparr>year = 2025, month = 5, day = 20\<rparr>"
    by (simp add: next_day_def days_in_month_def)
  have pb: "prev_day \<lparr>year = 2024, month = 3, day = Suc 0\<rparr> = \<lparr>year = 2024, month = 2, day = 29\<rparr>"
    by (simp add: prev_day_def days_in_month_def is_leap_def)
  have nc: "next_day \<lparr>year = 2025, month = 12, day = 31\<rparr> = \<lparr>year = 2026, month = 1, day = 1\<rparr>"
    by (simp add: next_day_def days_in_month_def)
  have a: "calculate_date_window ?a =
             Inr {\<lparr>year = 2025, month = 5, day = 19\<rparr>, \<lparr>year = 2025, month = 5, day = 20\<rparr>}"
    using calculate_date_window_exact[OF va] by (simp add: na date_max_def)
  have b: "calculate_date_window ?b =
             Inr {\<lparr>year = 2024, month = 2, day = 29\<rparr>, \<lparr>year = 2024, month = 3, day = 1\<rparr>}"
    using calculate_date_window_exact[OF vb] by (simp add: pb date_max_def date_min_def)
  have c: "calculate_date_window ?c =
             Inr {\<lparr>year = 2025, month = 12, day = 31\<rparr>, \<lparr>year = 2026, month = 1, day = 1\<rparr>}"
    using calculate_date_window_exact[OF vc] by (simp add: nc date_max_def)
  have d: "calculate_date_window ?d = Inl OverflowError"
    using calculate_date_window_exact[OF vd] by (simp add: date_min_def)
  show ?thesis using va vb vc vd a b c d by simp
qed

section \<open>Properties of the direction and of the query loop\<close>

lemma strip_words:
  "str_strip ''departure'' = ''departure''" "str_strip ''departures'' = ''departures''"
  "str_strip ''arrival'' = ''arrival''" "str_strip ''arrivals'' = ''arrivals''"
  by code_simp+

text \<open>
  C8, as stated. The specification has every string that is not one of the four words,
  in any case, raise \<^verbatim>\<open>ValueError\<close>. \<^verbatim>\<open>validate_direction\<close> also strips white space:
  \<^verbatim>\<open>" arrival"\<close> is none of the four words in any case, and it is accepted as an arrival.
\<close>

theorem validate_direction_blank_arrival:
  "str_lower '' arrival'' \<notin> {''departure'', ''departures'', ''arrival'', ''arrivals''} \<and>
   validate_direction '' arrival'' = Inr 2"
  by code_simp

text \<open>
  C8, amended. \<^verbatim>\<open>validate_direction\<close> maps every string that is \<^verbatim>\<open>departure\<close> or
  \<^verbatim>\<open>departures\<close> in any case to 1 and every string that is \<^verbatim>\<open>arrival\<close> or \<^verbatim>\<open>arrivals\<close>
  in any case to 2; it raises \<^verbatim>\<open>ValueError\<close> exactly on the strings that, in lower case
  and without the white space around them, are none of the four words; and when it
  raises, \<^verbatim>\<open>get_flights\<close> ends with that error before any request is issued.
\<close>

theorem validate_direction_synonyms:
  "(str_lower s = ''departure'' \<or> str_lower s = ''departures'' \<longrightarrow> validate_direction s = Inr 1) \<and>
   (str_lower s = ''arrival'' \<or> str_lower s = ''arrivals'' \<longrightarrow> validate_direction s = Inr 2) \<and>
   (validate_direction s = Inl ValueError \<longleftrightarrow>
      str_strip (str_lower s) \<notin> {''departure'', ''departures'', ''arrival'', ''arrivals''}) \<and>
   (validate_direction s = Inl ValueError \<longrightarrow>
      get_flights_1905 s tz now order fetch = ([], Inl ValueError) \<and>
      get_flights_v3 s tz now order fetch = ([], Inl ValueError))"
  by (auto simp: validate_direction_def Let_def strip_words get_flights_1905_def
        get_flights_v3_def get_flights_with_def)

theorem validate_direction_synonyms_witness:
  "str_lower ''Arrivals'' = ''arrivals'' \<and> validate_direction ''Arrivals'' = Inr 2 \<and>
   str_lower ''DEPARTURE'' = ''departure'' \<and> validate_direction ''DEPARTURE'' = Inr 1 \<and>
   validate_direction ''landing'' = Inl ValueError \<and>
   get_flights_1905 ''landing'' (\<lambda>d h m. Some 120)
     \<lparr>date_part = \<lparr>year = 2025, month = 5, day = 19\<rparr>, hour = 13, minute = 5, second = 1,
        microsecond = 7\<rparr>
     (\<lambda>S. []) (\<lambda>r. Inl RequestException) = ([], Inl ValueError)"
proof -
  have a: "str_lower ''Arrivals'' = ''arrivals''" by code_simp
  have d: "str_lower ''DEPARTURE'' = ''departure''" by code_simp
  have l: "str_strip (str_lower ''landing'') \<notin>
             {''departure'', ''departures'', ''arrival'', ''arrivals''}"
    by code_simp
  have 1: "validate_direction ''Arrivals'' = Inr 2"
    using validate_direction_synonyms[of "''Arrivals''"] a by simp
  have 2: "validate_direction ''DEPARTURE'' = Inr 1"
    using validate_direction_synonyms[of "''DEPARTURE''"] d by simp
  have 3: "validate_direction ''landing'' = Inl ValueError"
    using validate_direction_synonyms[of "''landing''"] l by blast
  have 4: "get_flights_1905 ''landing'' (\<lambda>d h m. Some 120)
     \<lparr>date_part = \<lparr>year = 2025, month = 5, day = 19\<rparr>, hour = 13, minute = 5, second = 1,
        microsecond = 7\<rparr>
     (\<lambda>S. []) (\<lambda>r. Inl RequestException) = ([], Inl ValueError)"
    using validate_direction_synonyms[of "''landing''"] 3 by blast
  show ?thesis using a d 1 2 3 4 by blast
qed

text \<open>
  C2. The specification has \<^verbatim>\<open>get_flights\<close> pass every entry through
  \<^verbatim>\<open>process_flight\<close> and append the record. In \<^verbatim>\<open>katowise_v3.py\<close> the call has five
  arguments and the function four parameters: the first entry of the first response
  raises \<^verbatim>\<open>TypeError\<close>, which the \<^verbatim>\<open>except\<close> clause does not catch, so \<^verbatim>\<open>get_flights\<close>
  ends there, after one request and with no record. The same input gives one record per
  entry and date in \<^verbatim>\<open>19_05_flight.py\<close>.
\<close>

theorem get_flights_v3_type_error:
  "get_flights_v3 ''arrival'' (\<lambda>d h m. Some 120)
     \<lparr>date_part = \<lparr>year = 2025, month = 5, day = 19\<rparr>, hour = 13, minute = 5, second = 1,
        microsecond = 7\<rparr>
     (\<lambda>S. filter (\<lambda>d. d \<in> S)
        [\<lparr>year = 2025, month = 5, day = 19\<rparr>, \<lparr>year = 2025, month = 5, day = 20\<rparr>])
     (\<lambda>r. Inr (PDict [(''data'', PList [PDict [(''flight_number'', PStr ''FR 0900''),
        (''airport'', PStr ''Alghero''), (''airline_name'', PStr ''Ryanair''),
        (''scheduled_time'', PStr ''10:30''), (''status'', PStr ''Boarding 10:35'')]])]))
   = ([\<lparr>req_direction = 2, req_date = ''2025-05-19'', req_time_from = ''01:05'',
         req_time_to = ''23:59''\<rparr>], Inl TypeError)"
  by code_simp

lemma get_flights_1905_same_input:
  "get_flights_1905 ''arrival'' (\<lambda>d h m. Some 120)
     \<lparr>date_part = \<lparr>year = 2025, month = 5, day = 19\<rparr>, hour = 13, minute = 5, second = 1,
        microsecond = 7\<rparr>
     (\<lambda>S. filter (\<lambda>d. d \<in> S)
        [\<lparr>year = 2025, month = 5, day = 19\<rparr>, \<lparr>year = 2025, month = 5, day = 20\<rparr>])
     (\<lambda>r. Inr (PDict [(''data'', PList [PDict [(''flight_number'', PStr ''FR 0900''),
        (''airport'', PStr ''Alghero''), (''airline_name'', PStr ''Ryanair''),
        (''scheduled_time'', PStr ''10:30''), (''status'', PStr ''Boarding 10:35'')]])]))
   = ([\<lparr>req_direction = 2, req_date = ''2025-05-19'', req_time_from = ''01:05'',
         req_time_to = ''23:59''\<rparr>,
       \<lparr>req_direction = 2, req_date = ''2025-05-20'', req_time_from = ''00:00'',
         req_time_to = ''01:05''\<rparr>],
      Inr [[(''flight_number'', PStr ''FR900''), (''is_flight_number'', PBool True),
            (''callsign'', PStr ''FR900''), (''airline'', PStr ''Ryanair''),
            (''departure_airport'', PStr ''AHO''), (''arrival_airport'', PStr ''KTW''),
            (''scheduled_arrival_time'', PStr ''2025-05-19T10:30:00.000+02:00''),
            (''estimated_arrival_time'', PStr ''2025-05-19T10:35:00.000+02:00''),
            (''actual_arrival_time'', PStr ''2025-05-19T10:35:00.000+02:00''),
            (''status'', PStr ''Boarding 10:35''), (''airline_iata_code'', PStr ''FR'')],
           [(''flight_number'', PStr ''FR900''), (''is_flight_number'', PBool True),
            (''callsign'', PStr ''FR900''), (''airline'', PStr ''Ryanair''),
            (''departure_airport'', PStr ''AHO''), (''arrival_airport'', PStr ''KTW''),
            (''scheduled_arrival_time'', PStr ''2025-05-20T10:30:00.000+02:00''),
            (''estimated_arrival_time'', PStr ''2025-05-20T10:35:00.000+02:00''),
            (''actual_arrival_time'', PStr ''2025-05-20T10:35:00.000+02:00''),
            (''status'', PStr ''Boarding 10:35''), (''airline_iata_code'', PStr ''FR'')]])"
  by code_simp

section \<open>Properties of the record with airport codes\<close>

text \<open>
  What \<^verbatim>\<open>process_flight\<close> of \<^verbatim>\<open>19_05_flight.py\<close> needs to return a record: a flight
  number that \<^verbatim>\<open>clean_flight_number\<close> accepts, and strings (or nothing) for airport,
  airline and status.
\<close>

lemma process_flight_1905_returns:
  assumes "process_flight_1905 (PDict fd) direction codes tz query_date = Inr r"
  obtains fn a b s where
    "clean_flight_number (dict_get fd ''flight_number'' (PStr [])) = Inr fn"
    "dict_get fd ''airport'' (PStr []) = PStr a"
    "dict_get fd ''airline_name'' (PStr []) = PStr b"
    "dict_get fd ''status'' (PStr []) = PStr s"
proof -
  obtain fn where fn: "clean_flight_number (dict_get fd ''flight_number'' (PStr [])) = Inr fn"
    using assms
    by (cases "clean_flight_number (dict_get fd ''flight_number'' (PStr []))")
       (simp_all add: process_flight_1905_def)
  obtain a where a: "dict_get fd ''airport'' (PStr []) = PStr a"
    using assms fn
    by (cases "dict_get fd ''airport'' (PStr [])") (simp_all add: process_flight_1905_def)
  obtain b where b: "dict_get fd ''airline_name'' (PStr []) = PStr b"
    using assms fn a
    by (cases "dict_get fd ''airline_name'' (PStr [])") (simp_all add: process_flight_1905_def)
  obtain s where s: "dict_get fd ''status'' (PStr []) = PStr s"
    using assms fn a b
    by (cases "dict_get fd ''status'' (PStr [])") (simp_all add: process_flight_1905_def)
  show ?thesis using fn a b s by (rule that)
qed

text \<open>
  C9. In every record \<^verbatim>\<open>process_flight\<close> of \<^verbatim>\<open>19_05_flight.py\<close> returns, with \<open>fn\<close> the
  canonical flight number: \<^verbatim>\<open>is_flight_number\<close> is true exactly when \<open>fn\<close> has a third
  character and that character is not alphabetic; \<^verbatim>\<open>airline_iata_code\<close> is the first two
  characters of \<open>fn\<close> when \<^verbatim>\<open>is_flight_number\<close> is true, and \<^verbatim>\<open>"N/A"\<close> otherwise.
\<close>

theorem iata_heuristic:
  assumes "process_flight_1905 (PDict fd) direction codes tz query_date = Inr r"
  shows "\<exists>fn. clean_flight_number (dict_get fd ''flight_number'' (PStr [])) = Inr fn \<and>
        map_of r ''flight_number'' = Some (PStr fn) \<and>
        map_of r ''is_flight_number'' = Some (PBool (3 \<le> length fn \<and> \<not> is_alpha (fn ! 2))) \<and>
        map_of r ''airline_iata_code'' =
          Some (PStr (if 3 \<le> length fn \<and> \<not> is_alpha (fn ! 2) then take 2 fn else ''N/A''))"
proof -
  obtain fn a b s where
    fn: "clean_flight_number (dict_get fd ''flight_number'' (PStr [])) = Inr fn"
    and a: "dict_get fd ''airport'' (PStr []) = PStr a"
    and b: "dict_get fd ''airline_name'' (PStr []) = PStr b"
    and s: "dict_get fd ''status'' (PStr []) = PStr s"
    using assms by (rule process_flight_1905_returns)
  have third: "is_third_char_alphabet fn = (3 \<le> length fn \<and> \<not> is_alpha (fn ! 2))"
    by (auto simp: is_third_char_alphabet_def)
  show ?thesis
  proof (cases "direction = 2")
    case True
    with assms fn a b s third show ?thesis
      by (auto simp: process_flight_1905_def Let_def get_flight_iata_def split: prod.splits)
  next
    case False
    with assms fn a b s third show ?thesis
      by (auto simp: process_flight_1905_def Let_def get_flight_iata_def split: prod.splits)
  qed
qed

theorem iata_heuristic_witness:
  "process_flight_1905
     (PDict [(''flight_number'', PStr ''FR 0900''), (''airport'', PStr ''Alghero''),
             (''airline_name'', PStr ''Ryanair''), (''scheduled_time'', PStr ''10:30''),
             (''status'', PStr ''Boarding 10:35'')])
     1 airport_codes (\<lambda>d h m. Some 120) \<lparr>year = 2025, month = 5, day = 19\<rparr> =
   Inr [(''flight_number'', PStr ''FR900''), (''is_flight_number'', PBool True),
        (''callsign'', PStr ''FR900''), (''airline'', PStr ''Ryanair''),
        (''departure_airport'', PStr ''KTW''), (''arrival_airport'', PStr ''AHO''),
        (''scheduled_departure_time'', PStr ''2025-05-19T10:30:00.000+02:00''),
        (''estimated_departure_time'', PStr ''2025-05-19T10:35:00.000+02:00''),
        (''actual_departure_time'', PStr ''2025-05-19T10:35:00.000+02:00''),
        (''status'', PStr ''Boarding 10:35''), (''airline_iata_code'', PStr ''FR'')] \<and>
   (\<exists>fn. clean_flight_number (PStr ''FR 0900'') = Inr fn \<and>
         (3 \<le> length fn \<and> \<not> is_alpha (fn ! 2)) \<and> take 2 fn = ''FR'')"
proof -
  let ?fd = "[(''flight_number'', PStr ''FR 0900''), (''airport'', PStr ''Alghero''),
              (''airline_name'', PStr ''Ryanair''), (''scheduled_time'', PStr ''10:30''),
              (''status'', PStr ''Boarding 10:35'')]"
  let ?r = "[(''flight_number'', PStr ''FR900''), (''is_flight_number'', PBool True),
        (''callsign'', PStr ''FR900''), (''airline'', PStr ''Ryanair''),
        (''departure_airport'', PStr ''KTW''), (''arrival_airport'', PStr ''AHO''),
        (''scheduled_departure_time'', PStr ''2025-05-19T10:30:00.000+02:00''),
        (''estimated_departure_time'', PStr ''2025-05-19T10:35:00.000+02:00''),
        (''actual_departure_time'', PStr ''2025-05-19T10:35:00.000+02:00''),
        (''status'', PStr ''Boarding 10:35''), (''airline_iata_code'', PStr ''FR'')]"
  have run: "process_flight_1905 (PDict ?fd) 1 airport_codes (\<lambda>d h m. Some 120)
               \<lparr>year = 2025, month = 5, day = 19\<rparr> = Inr ?r"
    by code_simp
  have g: "dict_get ?fd ''flight_number'' (PStr []) = PStr ''FR 0900''"
    by code_simp
  obtain fn where fn: "clean_flight_number (PStr ''FR 0900'') = Inr fn"
    and flag: "map_of ?r ''is_flight_number'' =
                 Some (PBool (3 \<le> length fn \<and> \<not> is_alpha (fn ! 2)))"
    and iata: "map_of ?r ''airline_iata_code'' =
                 Some (PStr (if 3 \<le> length fn \<and> \<not> is_alpha (fn ! 2) then take 2 fn else ''N/A''))"
    using iata_heuristic[OF run] unfolding g by blast
  have t: "3 \<le> length fn \<and> \<not> is_alpha (fn ! 2)"
    using flag by simp
  then have "take 2 fn = ''FR''"
    using iata by simp
  then show ?thesis using run fn t by blast
qed





section \<open>The shape of the time fields\<close>

text \<open>\<^verbatim>\<open>%02d\<close> and \<^verbatim>\<open>%04d\<close> write decimal digits, two and four of them.\<close>

lemma zero_pad_2:
  assumes "n < 100"
  shows "\<exists>a b. zero_pad 2 n = [a, b] \<and> is_decimal a \<and> is_decimal b"
proof (cases "n < 10")
  case True
  then show ?thesis
    by (simp add: zero_pad_def decimal_1 digit_char_decimal zero_is_decimal)
next
  case False
  then have "zero_pad 2 n = [digit_char (n div 10), digit_char (n mod 10)]"
    using assms by (simp add: zero_pad_def decimal_2)
  moreover have "n div 10 < 10" using assms by simp
  ultimately show ?thesis by (simp add: digit_char_decimal)
qed

lemma zero_pad_4:
  assumes "n < 10000"
  shows "\<exists>a b c d. zero_pad 4 n = [a, b, c, d] \<and> is_decimal a \<and> is_decimal b \<and>
           is_decimal c \<and> is_decimal d"
proof -
  consider "n < 10" | "10 \<le> n" "n < 100" | "100 \<le> n" "n < 1000" | "1000 \<le> n"
    by linarith
  then show ?thesis
  proof cases
    case 1
    then have "zero_pad 4 n = [CHR ''0'', CHR ''0'', CHR ''0'', digit_char n]"
      by (simp add: zero_pad_def decimal_1 replicate_small)
    with 1 show ?thesis
      by (simp add: digit_char_decimal zero_is_decimal)
  next
    case 2
    then have "zero_pad 4 n = [CHR ''0'', CHR ''0'', digit_char (n div 10), digit_char (n mod 10)]"
      by (simp add: zero_pad_def decimal_2 replicate_small)
    moreover have "n div 10 < 10" using 2 by simp
    ultimately show ?thesis
      by (simp add: digit_char_decimal zero_is_decimal)
  next
    case 3
    then have "zero_pad 4 n = [CHR ''0'', digit_char (n div 100), digit_char (n div 10 mod 10),
                               digit_char (n mod 10)]"
      by (simp add: zero_pad_def decimal_3)
    moreover have "n div 100 < 10" using 3 by simp
    ultimately show ?thesis
      by (simp add: digit_char_decimal zero_is_decimal)
  next
    case 4
    then have "zero_pad 4 n = [digit_char (n div 1000), digit_char (n div 100 mod 10),
                               digit_char (n div 10 mod 10), digit_char (n mod 10)]"
      using assms by (simp add: zero_pad_def decimal_4)
    moreover have "n div 1000 < 10" using assms by simp
    ultimately show ?thesis
      by (simp add: digit_char_decimal)
  qed
qed

lemma format_offset_shape:
  assumes "\<bar>off\<bar> < 1440"
  shows "\<exists>sg a b c d. format_offset off = [sg, a, b, CHR '':'', c, d] \<and>
           (sg = CHR ''+'' \<or> sg = CHR ''-'') \<and> is_decimal a \<and> is_decimal b \<and>
           is_decimal c \<and> is_decimal d"
proof -
  have "nat \<bar>off\<bar> div 60 < 100" and "nat \<bar>off\<bar> mod 60 < 100"
    using assms by simp_all
  then obtain a b c d where
    "zero_pad 2 (nat \<bar>off\<bar> div 60) = [a, b]" "is_decimal a" "is_decimal b"
    "zero_pad 2 (nat \<bar>off\<bar> mod 60) = [c, d]" "is_decimal c" "is_decimal d"
    using zero_pad_2[of "nat \<bar>off\<bar> div 60"] zero_pad_2[of "nat \<bar>off\<bar> mod 60"] by blast
  then show ?thesis
    by (simp add: format_offset_def Let_def)
qed

lemma date_isoformat_shape:
  assumes "valid_date d"
  shows "\<exists>y1 y2 y3 y4 m1 m2 d1 d2.
           date_isoformat d = [y1, y2, y3, y4, CHR ''-'', m1, m2, CHR ''-'', d1, d2] \<and>
           is_decimal y1 \<and> is_decimal y2 \<and> is_decimal y3 \<and> is_decimal y4 \<and>
           is_decimal m1 \<and> is_decimal m2 \<and> is_decimal d1 \<and> is_decimal d2"
proof -
  have "days_in_month (year d) (month d) \<le> 31"
    by (simp add: days_in_month_def)
  then have y: "year d < 10000" and m: "month d < 100" and dd: "day d < 100"
    using assms by (simp_all add: valid_date_def)
  obtain y1 y2 y3 y4 where
    "zero_pad 4 (year d) = [y1, y2, y3, y4]"
    "is_decimal y1" "is_decimal y2" "is_decimal y3" "is_decimal y4"
    using zero_pad_4[OF y] by blast
  moreover obtain m1 m2 where
    "zero_pad 2 (month d) = [m1, m2]" "is_decimal m1" "is_decimal m2"
    using zero_pad_2[OF m] by blast
  moreover obtain d1 d2 where
    "zero_pad 2 (day d) = [d1, d2]" "is_decimal d1" "is_decimal d2"
    using zero_pad_2[OF dd] by blast
  ultimately show ?thesis
    by (simp add: date_isoformat_def)
qed

text \<open>Whatever the zone answers, a rendered instant has the shape of the template.\<close>

lemma localize_isoformat_shape:
  assumes "valid_date d" and "h < 24" and "m < 60" and "localize_isoformat tz d h m = Inr s"
  shows "is_iso_timestamp s"
proof -
  obtain off where off: "\<bar>off\<bar> < 1440"
    and s: "s = date_isoformat d @ ''T'' @ zero_pad 2 h @ '':'' @ zero_pad 2 m @ '':00.000'' @
                format_offset off"
    using assms(4) by (auto simp: localize_isoformat_def split: option.splits if_splits)
  obtain y1 y2 y3 y4 m1 m2 d1 d2 where
    dt: "date_isoformat d = [y1, y2, y3, y4, CHR ''-'', m1, m2, CHR ''-'', d1, d2]"
    and dd: "is_decimal y1" "is_decimal y2" "is_decimal y3" "is_decimal y4"
       "is_decimal m1" "is_decimal m2" "is_decimal d1" "is_decimal d2"
    using date_isoformat_shape[OF assms(1)] by blast
  obtain sg a b c e where
    fo: "format_offset off = [sg, a, b, CHR '':'', c, e]"
    and sgn: "sg = CHR ''+'' \<or> sg = CHR ''-''"
    and od: "is_decimal a" "is_decimal b" "is_decimal c" "is_decimal e"
    using format_offset_shape[OF off] by blast
  obtain h1 h2 where hh: "zero_pad 2 h = [h1, h2]" and hd: "is_decimal h1" "is_decimal h2"
    using zero_pad_2[of h] assms(2) by auto
  obtain n1 n2 where mm: "zero_pad 2 m = [n1, n2]" and md: "is_decimal n1" "is_decimal n2"
    using zero_pad_2[of m] assms(3) by auto
  have "s = [y1, y2, y3, y4, CHR ''-'', m1, m2, CHR ''-'', d1, d2, CHR ''T'', h1, h2, CHR '':'',
             n1, n2, CHR '':'', CHR ''0'', CHR ''0'', CHR ''.'', CHR ''0'', CHR ''0'', CHR ''0'',
             sg, a, b, CHR '':'', c, e]"
    by (simp add: s dt fo hh mm)
  then show ?thesis
    using dd sgn od hd md zero_is_decimal
    by (auto simp: is_iso_timestamp_def template_char_def)
qed

lemma parse_flight_time_1905_shape:
  assumes "valid_date d"
  shows "parse_flight_time_1905 v d tz = ''N/A'' \<or>
         is_iso_timestamp (parse_flight_time_1905 v d tz)"
proof (cases "read_flight_time v d tz")
  case (Inl e)
  then show ?thesis by (simp add: parse_flight_time_1905_def)
next
  case (Inr s)
  then obtain h m where "0 \<le> h" "h \<le> 23" "0 \<le> m" "m \<le> 59"
    and "localize_isoformat tz d (nat h) (nat m) = Inr s"
    by (auto simp: read_flight_time_def split: pyval.splits list.splits option.splits if_splits)
  then have "is_iso_timestamp s"
    using localize_isoformat_shape[OF assms, of "nat h" "nat m" tz s] by simp
  then show ?thesis using Inr by (simp add: parse_flight_time_1905_def)
qed

text \<open>
  The two scripts parse alike: \<^verbatim>\<open>19_05_flight.py\<close> answers \<^verbatim>\<open>"N/A"\<close> exactly where
  \<^verbatim>\<open>katowise_v3.py\<close> answers \<^verbatim>\<open>None\<close>.
\<close>

lemma parse_flight_time_v3_default:
  "(case parse_flight_time_v3 v d tz of None \<Rightarrow> ''N/A'' | Some s \<Rightarrow> s) =
   parse_flight_time_1905 v d tz"
  by (simp add: parse_flight_time_v3_def parse_flight_time_1905_def split: sum.splits)

text \<open>
  The invariant of the specification in \<^verbatim>\<open>19_05_flight.py\<close>: the three times
  \<^verbatim>\<open>extract_times\<close> returns are each a rendered instant or \<^verbatim>\<open>"N/A"\<close>; and in
  \<^verbatim>\<open>katowise_v3.py\<close> the estimated and the actual time are.
\<close>

lemma extract_times_1905_shape:
  assumes "valid_date query_date"
      and "extract_times_1905 status scheduled_time tz query_date = (scheduled, estimated, actual)"
  shows "(scheduled = ''N/A'' \<or> is_iso_timestamp scheduled) \<and>
         (estimated = ''N/A'' \<or> is_iso_timestamp estimated) \<and>
         (actual = ''N/A'' \<or> is_iso_timestamp actual)"
  using assms(2) parse_flight_time_1905_shape[OF assms(1)]
  by (auto simp: extract_times_1905_def Let_def split: if_splits)

lemma extract_times_v3_shape:
  assumes "valid_date query_date"
      and "extract_times_v3 status scheduled_time tz query_date = (scheduled, estimated, actual)"
  shows "(estimated = ''N/A'' \<or> is_iso_timestamp estimated) \<and>
         (actual = ''N/A'' \<or> is_iso_timestamp actual)"
proof -
  have "estimated = ''N/A'' \<or>
        estimated = parse_flight_time_1905 (PStr (last (str_split status))) query_date tz"
    and "actual = estimated"
    using assms(2)
    by (auto simp: extract_times_v3_def Let_def parse_flight_time_v3_default split: if_splits)
  then show ?thesis
    using parse_flight_time_1905_shape[OF assms(1)] by metis
qed

text \<open>
  So every record \<^verbatim>\<open>process_flight\<close> of \<^verbatim>\<open>19_05_flight.py\<close> returns holds, under each of
  its three time keys, a rendered instant or \<^verbatim>\<open>"N/A"\<close>.
\<close>

lemma time_fields_1905:
  assumes "valid_date query_date"
      and "process_flight_1905 (PDict fd) direction codes tz query_date = Inr r"
      and "k \<in> (if direction = 2
                then {''scheduled_arrival_time'', ''estimated_arrival_time'',
                      ''actual_arrival_time''}
                else {''scheduled_departure_time'', ''estimated_departure_time'',
                      ''actual_departure_time''})"
  shows "\<exists>t. map_of r k = Some (PStr t) \<and> (t = ''N/A'' \<or> is_iso_timestamp t)"
proof -
  obtain fn a b s where
    fn: "clean_flight_number (dict_get fd ''flight_number'' (PStr [])) = Inr fn"
    and a: "dict_get fd ''airport'' (PStr []) = PStr a"
    and b: "dict_get fd ''airline_name'' (PStr []) = PStr b"
    and s: "dict_get fd ''status'' (PStr []) = PStr s"
    using assms(2) by (rule process_flight_1905_returns)
  obtain sc es ac where
    ex: "extract_times_1905 (str_strip s) (dict_get fd ''scheduled_time'' (PStr [])) tz query_date =
           (sc, es, ac)"
    by (cases "extract_times_1905 (str_strip s) (dict_get fd ''scheduled_time'' (PStr [])) tz
                 query_date") auto
  have shape: "(sc = ''N/A'' \<or> is_iso_timestamp sc) \<and> (es = ''N/A'' \<or> is_iso_timestamp es) \<and>
               (ac = ''N/A'' \<or> is_iso_timestamp ac)"
    using extract_times_1905_shape[OF assms(1) ex] .
  show ?thesis
  proof (cases "direction = 2")
    case True
    then have "map_of r ''scheduled_arrival_time'' = Some (PStr sc)"
      and "map_of r ''estimated_arrival_time'' = Some (PStr es)"
      and "map_of r ''actual_arrival_time'' = Some (PStr ac)"
      using assms(2) fn a b s ex by (auto simp: process_flight_1905_def Let_def)
    then show ?thesis using shape assms(3) True by auto
  next
    case False
    then have "map_of r ''scheduled_departure_time'' = Some (PStr sc)"
      and "map_of r ''estimated_departure_time'' = Some (PStr es)"
      and "map_of r ''actual_departure_time'' = Some (PStr ac)"
      using assms(2) fn a b s ex by (auto simp: process_flight_1905_def Let_def)
    then show ?thesis using shape assms(3) False by auto
  qed
qed

end
